theory Spec2Isabelle
  imports Main "HOL-Library.AList"
begin

section \<open>JavaScript strings\<close>

text \<open>
  Strings are lists of code units; the model keeps the code units that fit a \<open>char\<close>.
  \<open>is_ws\<close> is the set that \<open>String.prototype.trim\<close> strips and that the regular
  expression class \<open>\s\<close> matches (tab, line feed, vertical tab, form feed, carriage
  return, space, no-break space).
\<close>

abbreviation dquote :: char where
  "dquote \<equiv> CHR 0x22"

abbreviation newline :: char where
  "newline \<equiv> CHR 0x0A"

abbreviation creturn :: char where
  "creturn \<equiv> CHR 0x0D"

definition triple_quote :: string where
  "triple_quote = [dquote, dquote, dquote]"

definition is_ws :: "char \<Rightarrow> bool" where
  "is_ws c = (c \<in> set [CHR 0x09, CHR 0x0A, CHR 0x0B, CHR 0x0C, CHR 0x0D, CHR 0x20, CHR 0xA0])"

definition trim :: "string \<Rightarrow> string" where
  "trim s = rev (dropWhile is_ws (rev (dropWhile is_ws s)))"

definition startsWith :: "string \<Rightarrow> string \<Rightarrow> bool" where
  "startsWith s p = (take (length p) s = p)"

definition endsWith :: "string \<Rightarrow> string \<Rightarrow> bool" where
  "endsWith s p = (take (length p) (rev s) = rev p)"

text \<open>\<open>s.split(c)\<close> for a one-character separator: never empty, \<open>''''\<close> gives \<open>['''']\<close>.\<close>

fun split_on :: "char \<Rightarrow> string \<Rightarrow> string list" where
  "split_on c [] = [[]]"
| "split_on c (x # xs) =
     (if x = c then [] # split_on c xs
      else (case split_on c xs of
              [] \<Rightarrow> [[x]]
            | y # ys \<Rightarrow> (x # y) # ys))"

text \<open>\<open>s.split(/\r?\n/)\<close>: a line feed, with the carriage return before it when there is one.\<close>

fun split_lines :: "string \<Rightarrow> string list" where
  "split_lines [] = [[]]"
| "split_lines (x # xs) =
     (if x = newline then [] # split_lines xs
      else if x = creturn \<and> xs \<noteq> [] \<and> hd xs = newline then [] # split_lines (tl xs)
      else (case split_lines xs of
              [] \<Rightarrow> [[x]]
            | y # ys \<Rightarrow> (x # y) # ys))"

text \<open>\<open>xs.join(sep)\<close>.\<close>

fun join :: "string \<Rightarrow> string list \<Rightarrow> string" where
  "join sep [] = []"
| "join sep [x] = x"
| "join sep (x # y # ys) = x @ sep @ join sep (y # ys)"

text \<open>
  The regular expressions \<open>/^Begin\s+/i\<close> and \<open>/^End\s+/i\<close>: the keyword in either
  case, then at least one white-space character. \<open>match_keyword\<close> gives what is left
  after the greedy match, or \<open>None\<close> when the expression does not match.
\<close>

fun ci_prefix :: "(char \<times> char) list \<Rightarrow> string \<Rightarrow> string option" where
  "ci_prefix [] s = Some s"
| "ci_prefix ((l, u) # kw) [] = None"
| "ci_prefix ((l, u) # kw) (c # s) = (if c = l \<or> c = u then ci_prefix kw s else None)"

definition match_keyword :: "(char \<times> char) list \<Rightarrow> string \<Rightarrow> string option" where
  "match_keyword kw line =
     (case ci_prefix kw line of
        None \<Rightarrow> None
      | Some r \<Rightarrow> (case r of
                     [] \<Rightarrow> None
                   | c # cs \<Rightarrow> if is_ws c then Some (dropWhile is_ws r) else None))"

definition kw_Begin :: "(char \<times> char) list" where
  "kw_Begin = zip ''begin'' ''BEGIN''"

definition kw_End :: "(char \<times> char) list" where
  "kw_End = zip ''end'' ''END''"

text \<open>\<open>line.replace(re, "")\<close> for one of the two expressions: unchanged when it does not match.\<close>

definition strip_keyword :: "(char \<times> char) list \<Rightarrow> string \<Rightarrow> string" where
  "strip_keyword kw line = (case match_keyword kw line of None \<Rightarrow> line | Some r \<Rightarrow> r)"

text \<open>Decimal digits of a line number, for the \<open>Line N: \<close> prefix of an error message.\<close>

fun show_nat :: "nat \<Rightarrow> string" where
  "show_nat n =
     (if n < 10 then [char_of (48 + n)]
      else show_nat (n div 10) @ [char_of (48 + n mod 10)])"

section \<open>Values, frames and documents\<close>

text \<open>
  A JavaScript value as the parser and its plugins see it. \<open>VRec\<close> is an object literal
  such as \<open>{type, value}\<close>; \<open>VObj a\<close> is a reference to the block frame at address
  \<open>a\<close> of the store; \<open>VBuiltin k\<close> is the member \<open>k\<close> that every object inherits from
  \<open>Object.prototype\<close>. Numbers are integers only.
\<close>

datatype jsval =
    VUndefined
  | VNull
  | VBool bool
  | VNum int
  | VStr string
  | VArr "jsval list"
  | VRec "(string \<times> jsval) list"
  | VObj nat
  | VBuiltin string

text \<open>
  A frame is one object created by \<open>{}\<close>. \<open>Frame ps\<close> is such an object with its
  prototype untouched and the own properties \<open>ps\<close>, in the order of their creation.
  \<open>ProtoReplaced\<close> is a frame whose prototype has been replaced by a write to the key
  \<open>__proto__\<close>: what a read of it gives then depends on the new prototype, and the model
  keeps nothing of such a frame. The frames of a parse live in a store (a list indexed
  by address), because the parent's list and the stack hold the same object.
\<close>

type_synonym props = "(string \<times> jsval) list"

datatype frame = Frame props | ProtoReplaced

record document =
  d_heap :: "frame list"
  d_root :: nat

definition object_prototype_keys :: "string list" where
  "object_prototype_keys =
     [''constructor'', ''__defineGetter__'', ''__defineSetter__'', ''hasOwnProperty'',
      ''__lookupGetter__'', ''__lookupSetter__'', ''isPrototypeOf'', ''propertyIsEnumerable'',
      ''toString'', ''valueOf'', ''__proto__'', ''toLocaleString'']"

text \<open>
  \<open>obj[key]\<close> as a read, on an object with the own properties \<open>obj\<close> and the prototype
  \<open>Object.prototype\<close>: the own property, else the inherited member, else \<open>undefined\<close>.
  The inherited member \<open>__proto__\<close> reads as the prototype object itself, here
  \<open>VBuiltin ''__proto__''\<close>.
\<close>

definition get_prop :: "props \<Rightarrow> string \<Rightarrow> jsval" where
  "get_prop obj k =
     (case map_of obj k of
        Some v \<Rightarrow> v
      | None \<Rightarrow> if k \<in> set object_prototype_keys then VBuiltin k else VUndefined)"

text \<open>
  \<open>obj[key] = v\<close> as a write, on the same object: it sets the own property, except for
  the key \<open>__proto__\<close> when the object has no own property of that name. There the
  write runs the setter inherited from \<open>Object.prototype\<close>: an object or \<open>null\<close>
  becomes the new prototype and no own property is created; any other value is
  ignored. (The parser writes only arrays to that key; a frame reference that closes
  a prototype cycle would throw instead.)
\<close>

fun is_object :: "jsval \<Rightarrow> bool" where
  "is_object (VArr xs) = True"
| "is_object (VRec fs) = True"
| "is_object (VObj a) = True"
| "is_object (VBuiltin k) = True"
| "is_object v = False"

definition set_prop :: "props \<Rightarrow> string \<Rightarrow> jsval \<Rightarrow> frame" where
  "set_prop obj k v =
     (if k = ''__proto__'' \<and> map_of obj k = None
      then (if is_object v \<or> v = VNull then ProtoReplaced else Frame obj)
      else Frame (AList.update k v obj))"

fun truthy :: "jsval \<Rightarrow> bool" where
  "truthy VUndefined = False"
| "truthy VNull = False"
| "truthy (VBool b) = b"
| "truthy (VNum n) = (n \<noteq> 0)"
| "truthy (VStr s) = (s \<noteq> [])"
| "truthy (VArr xs) = True"
| "truthy (VRec fs) = True"
| "truthy (VObj a) = True"
| "truthy (VBuiltin k) = True"

text \<open>
  A value is callable when it is a function: an inherited member other than the
  prototype object itself.
\<close>

fun callable :: "jsval \<Rightarrow> bool" where
  "callable (VBuiltin k) = (k \<noteq> ''__proto__'')"
| "callable v = False"

text \<open>A read on the root of a document; \<open>None\<close> where the model keeps nothing of the root.\<close>

definition doc_get :: "document \<Rightarrow> string \<Rightarrow> jsval option" where
  "doc_get d k =
     (case d_heap d ! d_root d of
        Frame obj \<Rightarrow> Some (get_prop obj k)
      | ProtoReplaced \<Rightarrow> None)"

section \<open>Errors\<close>

text \<open>
  \<open>DSLParseError message lineNumber line\<close>; \<open>PluginError plugin code message\<close> as
  \<open>createPluginError\<close> builds it; \<open>TypeError\<close> for what the runtime throws;
  \<open>Error\<close> for a plain \<open>new Error(message)\<close>. \<open>Unmodelled\<close> is no error of the
  program: it ends a run of the model at a step whose outcome in the code depends on
  what the model does not keep (the members of a frame whose prototype was replaced,
  the body of a function held in a value). No theorem counts it as a failure of the
  parse.
\<close>

datatype error =
    DSLParseError string "nat option" "string option"
  | PluginError string string string
  | TypeError string
  | Error string
  | Unmodelled string

definition DSLParseError_message :: "string \<Rightarrow> nat option \<Rightarrow> string" where
  "DSLParseError_message message lineNumber =
     (case lineNumber of
        None \<Rightarrow> message
      | Some n \<Rightarrow> if n = 0 then message else ''Line '' @ show_nat n @ '': '' @ message)"

text \<open>What a plugin throws is kept as its message (empty when it has none).\<close>

definition createPluginError :: "string \<Rightarrow> string \<Rightarrow> string \<Rightarrow> error" where
  "createPluginError pluginName code originalError =
     PluginError pluginName code
       (''Plugin '' @ pluginName @ '' error: '' @
        (if originalError = [] then ''Unknown error'' else originalError))"

section \<open>Plugins\<close>

record plugin_context =
  ctx_lineNumber :: nat
  ctx_line :: string
  ctx_key :: string
  ctx_value :: string
  ctx_type :: "string option"
  ctx_data :: "frame option"

text \<open>
  A plugin object: \<open>p_id\<close> is its identity (what \<open>indexOf\<close> compares), \<open>p_name\<close> is
  \<open>metadata.name\<close>, and every member the manager probes with \<open>in\<close> or calls is a slot
  that is present or absent. A call returns \<open>Inr\<close> its result or \<open>Inl\<close> the message
  of what it throws. Plugins are pure: one that keeps state or writes to
  \<open>context.data\<close> is outside the model.
\<close>

record plugin =
  p_id :: nat
  p_name :: string
  p_initialize :: "(string + unit) option"
  p_destroy :: "(string + unit) option"
  p_supportedTypes :: "string list option"
  p_processValue :: "(string \<Rightarrow> string \<Rightarrow> plugin_context \<Rightarrow> string + jsval) option"
  p_validate :: "(document \<Rightarrow> string + string list) option"
  p_supportedFormats :: "string list option"
  p_format :: "(document \<Rightarrow> jsval \<Rightarrow> string + string) option"
  p_beforeParse :: "(string \<Rightarrow> string + string) option"
  p_afterParse :: "(document \<Rightarrow> string + document) option"
  p_onKeyValue :: "(string \<Rightarrow> jsval \<Rightarrow> plugin_context \<Rightarrow> string + (string \<times> jsval) option) option"
  p_onBlockStart :: "(string \<Rightarrow> plugin_context \<Rightarrow> string + unit) option"
  p_onBlockEnd :: "(string \<Rightarrow> plugin_context \<Rightarrow> string + unit) option"

record plugin_options =
  o_enabled :: "bool option"
  o_priority :: "int option"

definition defaultOptions :: "plugin_options \<Rightarrow> plugin_options" where
  "defaultOptions options =
     \<lparr> o_enabled = (case o_enabled options of None \<Rightarrow> Some True | Some b \<Rightarrow> Some b),
       o_priority = (case o_priority options of None \<Rightarrow> Some 0 | Some n \<Rightarrow> Some n) \<rparr>"

section \<open>The plugin manager\<close>

record plugin_manager =
  plugins :: "(string \<times> plugin \<times> plugin_options) list"
  typePlugins :: "(string \<times> plugin) list"
  validationPlugins :: "plugin list"
  formatterPlugins :: "plugin list"
  parserPlugins :: "plugin list"

definition new_PluginManager :: plugin_manager where
  "new_PluginManager =
     \<lparr> plugins = [], typePlugins = [], validationPlugins = [], formatterPlugins = [],
       parserPlugins = [] \<rparr>"

definition isTypePlugin :: "plugin \<Rightarrow> bool" where
  "isTypePlugin p = (p_supportedTypes p \<noteq> None \<and> p_processValue p \<noteq> None)"

definition isValidationPlugin :: "plugin \<Rightarrow> bool" where
  "isValidationPlugin p = (p_validate p \<noteq> None)"

definition isFormatterPlugin :: "plugin \<Rightarrow> bool" where
  "isFormatterPlugin p = (p_format p \<noteq> None \<and> p_supportedFormats p \<noteq> None)"

definition isParserPlugin :: "plugin \<Rightarrow> bool" where
  "isParserPlugin p =
     (p_beforeParse p \<noteq> None \<or> p_afterParse p \<noteq> None \<or> p_onKeyValue p \<noteq> None \<or>
      p_onBlockStart p \<noteq> None \<or> p_onBlockEnd p \<noteq> None)"

text \<open>\<open>this.plugins.get(p.metadata.name)?.options.priority || 0\<close>.\<close>

definition priority_or_0 :: "plugin_options \<Rightarrow> int" where
  "priority_or_0 opts = (case o_priority opts of None \<Rightarrow> 0 | Some n \<Rightarrow> n)"

definition priority_of :: "plugin_manager \<Rightarrow> plugin \<Rightarrow> int" where
  "priority_of pm p =
     (case map_of (plugins pm) (p_name p) of
        None \<Rightarrow> 0
      | Some (q, opts) \<Rightarrow> priority_or_0 opts)"

text \<open>
  \<open>xs.sort((a, b) => bPriority - aPriority)\<close>: a stable sort, higher priority first.
\<close>

definition sort_by_priority :: "plugin_manager \<Rightarrow> plugin list \<Rightarrow> plugin list" where
  "sort_by_priority pm xs = sort_key (\<lambda>p. - priority_of pm p) xs"

text \<open>
  The private helpers run on a plugin that passed the matching test, so the
  \<open>None\<close> branch of \<open>registerTypePlugin\<close> and \<open>unregisterTypePlugin\<close> is not reached.
\<close>

definition registerTypePlugin :: "plugin \<Rightarrow> plugin_manager \<Rightarrow> plugin_manager" where
  "registerTypePlugin p pm =
     (case p_supportedTypes p of
        None \<Rightarrow> pm
      | Some ts \<Rightarrow> pm\<lparr> typePlugins := fold (\<lambda>t m. AList.update t p m) ts (typePlugins pm) \<rparr>)"

definition unregisterTypePlugin :: "plugin \<Rightarrow> plugin_manager \<Rightarrow> plugin_manager" where
  "unregisterTypePlugin p pm =
     (case p_supportedTypes p of
        None \<Rightarrow> pm
      | Some ts \<Rightarrow> pm\<lparr> typePlugins := fold (\<lambda>t m. AList.delete t m) ts (typePlugins pm) \<rparr>)"

text \<open>\<open>indexOf(plugin)\<close> then \<open>splice(index, 1)\<close>: the first entry that is this object.\<close>

fun remove_plugin :: "plugin \<Rightarrow> plugin list \<Rightarrow> plugin list" where
  "remove_plugin p [] = []"
| "remove_plugin p (x # xs) = (if p_id x = p_id p then xs else x # remove_plugin p xs)"

definition registerValidationPlugin :: "plugin \<Rightarrow> plugin_manager \<Rightarrow> plugin_manager" where
  "registerValidationPlugin p pm =
     pm\<lparr> validationPlugins := sort_by_priority pm (validationPlugins pm @ [p]) \<rparr>"

definition unregisterValidationPlugin :: "plugin \<Rightarrow> plugin_manager \<Rightarrow> plugin_manager" where
  "unregisterValidationPlugin p pm =
     pm\<lparr> validationPlugins := remove_plugin p (validationPlugins pm) \<rparr>"

definition registerFormatterPlugin :: "plugin \<Rightarrow> plugin_manager \<Rightarrow> plugin_manager" where
  "registerFormatterPlugin p pm = pm\<lparr> formatterPlugins := formatterPlugins pm @ [p] \<rparr>"

definition unregisterFormatterPlugin :: "plugin \<Rightarrow> plugin_manager \<Rightarrow> plugin_manager" where
  "unregisterFormatterPlugin p pm =
     pm\<lparr> formatterPlugins := remove_plugin p (formatterPlugins pm) \<rparr>"

definition registerParserPlugin :: "plugin \<Rightarrow> plugin_manager \<Rightarrow> plugin_manager" where
  "registerParserPlugin p pm =
     pm\<lparr> parserPlugins := sort_by_priority pm (parserPlugins pm @ [p]) \<rparr>"

definition unregisterParserPlugin :: "plugin \<Rightarrow> plugin_manager \<Rightarrow> plugin_manager" where
  "unregisterParserPlugin p pm =
     pm\<lparr> parserPlugins := remove_plugin p (parserPlugins pm) \<rparr>"

text \<open>
  \<open>register\<close> returns the manager as the call leaves it and, when \<open>initialize\<close> throws,
  the error the call throws: the plugin stays registered in that case.
  \<open>set_plugin_entry\<close> is its first statement, \<open>this.plugins.set(name, {plugin, options})\<close>.
\<close>

definition set_plugin_entry :: "plugin \<Rightarrow> plugin_options \<Rightarrow> plugin_manager \<Rightarrow> plugin_manager" where
  "set_plugin_entry p options pm =
     pm\<lparr> plugins := AList.update (p_name p) (p, defaultOptions options) (plugins pm) \<rparr>"

definition register :: "plugin \<Rightarrow> plugin_options \<Rightarrow> plugin_manager \<Rightarrow> plugin_manager \<times> error option" where
  "register p options pm =
     (let pm0 = set_plugin_entry p options pm;
          pm1 = (if isTypePlugin p then registerTypePlugin p pm0 else pm0);
          pm2 = (if isValidationPlugin p then registerValidationPlugin p pm1 else pm1);
          pm3 = (if isFormatterPlugin p then registerFormatterPlugin p pm2 else pm2);
          pm4 = (if isParserPlugin p then registerParserPlugin p pm3 else pm3)
      in (pm4,
          case p_initialize p of
            None \<Rightarrow> None
          | Some (Inr u) \<Rightarrow> None
          | Some (Inl msg) \<Rightarrow> Some (createPluginError (p_name p) ''INIT_FAILED'' msg)))"

text \<open>A \<open>destroy\<close> that throws is logged and nothing else, so \<open>unregister\<close> never fails.\<close>

definition unregister :: "string \<Rightarrow> plugin_manager \<Rightarrow> plugin_manager" where
  "unregister pluginName pm =
     (case map_of (plugins pm) pluginName of
        None \<Rightarrow> pm
      | Some (p, opts) \<Rightarrow>
          (let pm1 = (if isTypePlugin p then unregisterTypePlugin p pm else pm);
               pm2 = (if isValidationPlugin p then unregisterValidationPlugin p pm1 else pm1);
               pm3 = (if isFormatterPlugin p then unregisterFormatterPlugin p pm2 else pm2);
               pm4 = (if isParserPlugin p then unregisterParserPlugin p pm3 else pm3)
           in pm4\<lparr> plugins := AList.delete pluginName (plugins pm4) \<rparr>))"

definition isRegistered :: "plugin_manager \<Rightarrow> string \<Rightarrow> bool" where
  "isRegistered pm pluginName = (map_of (plugins pm) pluginName \<noteq> None)"

text \<open>
  \<open>PluginManager.processValue\<close>. A handler found under the tag whose \<open>processValue\<close> slot
  is empty makes the call inside \<open>try\<close> throw, which is wrapped like any other failure.
\<close>

definition PM_processValue ::
  "plugin_manager \<Rightarrow> string \<Rightarrow> string option \<Rightarrow> plugin_context \<Rightarrow> error + jsval" where
  "PM_processValue pm v ty ctx =
     (case ty of
        None \<Rightarrow> Inr (VStr v)
      | Some t \<Rightarrow>
          if t = [] then Inr (VStr v)
          else (case map_of (typePlugins pm) t of
                  None \<Rightarrow> Inr (VStr v)
                | Some p \<Rightarrow>
                    (case p_processValue p of
                       None \<Rightarrow> Inl (createPluginError (p_name p) ''PROCESS_VALUE_FAILED''
                                      ''plugin.processValue is not a function'')
                     | Some f \<Rightarrow>
                         (case f v t ctx of
                            Inl msg \<Rightarrow> Inl (createPluginError (p_name p) ''PROCESS_VALUE_FAILED'' msg)
                          | Inr r \<Rightarrow> Inr r))))"

text \<open>
  \<open>validateData\<close>: the loop over \<open>validationPlugins\<close>, with \<open>allWarnings\<close> as accumulator.
  \<open>call_validate\<close> is \<open>plugin.validate(data)\<close> inside the \<open>try\<close>; on an empty slot the
  call itself throws.
\<close>

definition call_validate :: "plugin \<Rightarrow> document \<Rightarrow> string + string list" where
  "call_validate p d =
     (case p_validate p of
        None \<Rightarrow> Inl ''plugin.validate is not a function''
      | Some f \<Rightarrow> f d)"

fun validate_loop :: "plugin list \<Rightarrow> document \<Rightarrow> string list \<Rightarrow> error + string list" where
  "validate_loop [] d allWarnings = Inr allWarnings"
| "validate_loop (p # ps) d allWarnings =
     (case call_validate p d of
        Inl msg \<Rightarrow> Inl (createPluginError (p_name p) ''VALIDATE_DATA_FAILED'' msg)
      | Inr warnings \<Rightarrow> validate_loop ps d (allWarnings @ warnings))"

definition validateData :: "plugin_manager \<Rightarrow> document \<Rightarrow> error + string list" where
  "validateData pm d = validate_loop (validationPlugins pm) d []"

text \<open>
  \<open>formatterPlugins.find(p => p.supportedFormats.includes(format))\<close>: the first plugin
  on the list whose formats hold the tag.
\<close>

fun find_formatter :: "string \<Rightarrow> plugin list \<Rightarrow> error + plugin option" where
  "find_formatter fmt [] = Inr None"
| "find_formatter fmt (p # ps) =
     (case p_supportedFormats p of
        None \<Rightarrow> Inl (TypeError ''Cannot read properties of undefined (reading includes)'')
      | Some fs \<Rightarrow> if fmt \<in> set fs then Inr (Some p) else find_formatter fmt ps)"

definition formatData :: "plugin_manager \<Rightarrow> document \<Rightarrow> string \<Rightarrow> jsval \<Rightarrow> error + string" where
  "formatData pm d fmt options =
     (case find_formatter fmt (formatterPlugins pm) of
        Inl e \<Rightarrow> Inl e
      | Inr None \<Rightarrow> Inl (Error (''No formatter plugin found for format: '' @ fmt))
      | Inr (Some p) \<Rightarrow>
          (case p_format p of
             None \<Rightarrow> Inl (createPluginError (p_name p) ''FORMAT_FAILED''
                            ''plugin.format is not a function'')
           | Some f \<Rightarrow>
               (case f d options of
                  Inl msg \<Rightarrow> Inl (createPluginError (p_name p) ''FORMAT_FAILED'' msg)
                | Inr out \<Rightarrow> Inr out)))"

text \<open>The five parser hooks: each loop runs over \<open>parserPlugins\<close> in list order.\<close>

fun beforeParse_loop :: "plugin list \<Rightarrow> string \<Rightarrow> error + string" where
  "beforeParse_loop [] processedInput = Inr processedInput"
| "beforeParse_loop (p # ps) processedInput =
     (case p_beforeParse p of
        None \<Rightarrow> beforeParse_loop ps processedInput
      | Some f \<Rightarrow>
          (case f processedInput of
             Inl msg \<Rightarrow> Inl (createPluginError (p_name p) ''BEFORE_PARSE_FAILED'' msg)
           | Inr out \<Rightarrow> beforeParse_loop ps out))"

definition PM_beforeParse :: "plugin_manager \<Rightarrow> string \<Rightarrow> error + string" where
  "PM_beforeParse pm input = beforeParse_loop (parserPlugins pm) input"

fun afterParse_loop :: "plugin list \<Rightarrow> document \<Rightarrow> error + document" where
  "afterParse_loop [] processedData = Inr processedData"
| "afterParse_loop (p # ps) processedData =
     (case p_afterParse p of
        None \<Rightarrow> afterParse_loop ps processedData
      | Some f \<Rightarrow>
          (case f processedData of
             Inl msg \<Rightarrow> Inl (createPluginError (p_name p) ''AFTER_PARSE_FAILED'' msg)
           | Inr out \<Rightarrow> afterParse_loop ps out))"

definition PM_afterParse :: "plugin_manager \<Rightarrow> document \<Rightarrow> error + document" where
  "PM_afterParse pm d = afterParse_loop (parserPlugins pm) d"

fun onKeyValue_loop ::
  "plugin list \<Rightarrow> string \<times> jsval \<Rightarrow> plugin_context \<Rightarrow> error + string \<times> jsval" where
  "onKeyValue_loop [] result ctx = Inr result"
| "onKeyValue_loop (p # ps) result ctx =
     (case p_onKeyValue p of
        None \<Rightarrow> onKeyValue_loop ps result ctx
      | Some f \<Rightarrow>
          (case f (fst result) (snd result) ctx of
             Inl msg \<Rightarrow> Inl (createPluginError (p_name p) ''ON_KEY_VALUE_FAILED'' msg)
           | Inr None \<Rightarrow> onKeyValue_loop ps result ctx
           | Inr (Some pluginResult) \<Rightarrow> onKeyValue_loop ps pluginResult ctx))"

definition PM_onKeyValue ::
  "plugin_manager \<Rightarrow> string \<Rightarrow> jsval \<Rightarrow> plugin_context \<Rightarrow> error + string \<times> jsval" where
  "PM_onKeyValue pm k v ctx = onKeyValue_loop (parserPlugins pm) (k, v) ctx"

fun onBlockStart_loop :: "plugin list \<Rightarrow> string \<Rightarrow> plugin_context \<Rightarrow> error + unit" where
  "onBlockStart_loop [] blockName ctx = Inr ()"
| "onBlockStart_loop (p # ps) blockName ctx =
     (case p_onBlockStart p of
        None \<Rightarrow> onBlockStart_loop ps blockName ctx
      | Some f \<Rightarrow>
          (case f blockName ctx of
             Inl msg \<Rightarrow> Inl (createPluginError (p_name p) ''ON_BLOCK_START_FAILED'' msg)
           | Inr u \<Rightarrow> onBlockStart_loop ps blockName ctx))"

definition PM_onBlockStart :: "plugin_manager \<Rightarrow> string \<Rightarrow> plugin_context \<Rightarrow> error + unit" where
  "PM_onBlockStart pm blockName ctx = onBlockStart_loop (parserPlugins pm) blockName ctx"

fun onBlockEnd_loop :: "plugin list \<Rightarrow> string \<Rightarrow> plugin_context \<Rightarrow> error + unit" where
  "onBlockEnd_loop [] blockName ctx = Inr ()"
| "onBlockEnd_loop (p # ps) blockName ctx =
     (case p_onBlockEnd p of
        None \<Rightarrow> onBlockEnd_loop ps blockName ctx
      | Some f \<Rightarrow>
          (case f blockName ctx of
             Inl msg \<Rightarrow> Inl (createPluginError (p_name p) ''ON_BLOCK_END_FAILED'' msg)
           | Inr u \<Rightarrow> onBlockEnd_loop ps blockName ctx))"

definition PM_onBlockEnd :: "plugin_manager \<Rightarrow> string \<Rightarrow> plugin_context \<Rightarrow> error + unit" where
  "PM_onBlockEnd pm blockName ctx = onBlockEnd_loop (parserPlugins pm) blockName ctx"

section \<open>The parser\<close>

text \<open>\<open>validateInput\<close>: the input is a string by its type, so only the second check stands.\<close>

definition validateInput :: "string \<Rightarrow> error option" where
  "validateInput input =
     (if length (trim input) = 0 then Some (DSLParseError ''Input cannot be empty'' None None)
      else None)"

text \<open>
  \<open>assignValue\<close>. An array read under the key is an own property (no inherited member
  is an array), and \<open>push\<close> extends it in place. For the key \<open>__proto__\<close> the read gives
  the prototype object, which is truthy and no array, so the last branch writes a
  two-element array to that key and thereby replaces the prototype. On a frame whose
  prototype was replaced the call does not throw; the model keeps nothing of the frame.
\<close>

fun assignValue :: "frame \<Rightarrow> string \<Rightarrow> jsval \<Rightarrow> frame" where
  "assignValue ProtoReplaced k v = ProtoReplaced"
| "assignValue (Frame obj) k v =
     (if \<not> truthy (get_prop obj k) then set_prop obj k v
      else (case get_prop obj k of
              VArr xs \<Rightarrow> Frame (AList.update k (VArr (xs @ [v])) obj)
            | old \<Rightarrow> set_prop obj k (VArr [old, v])))"

definition parseKeyValue :: "string \<Rightarrow> nat \<Rightarrow> error + string \<times> string \<times> string option" where
  "parseKeyValue line lineNumber =
     (if CHR '':'' \<notin> set line
      then Inl (DSLParseError ''Invalid line format - missing colon'' (Some lineNumber) (Some line))
      else
        (let k = trim (takeWhile (\<lambda>c. c \<noteq> CHR '':'') line);
             v = trim (tl (dropWhile (\<lambda>c. c \<noteq> CHR '':'') line))
         in if k = [] then Inl (DSLParseError ''Empty key not allowed'' (Some lineNumber) (Some line))
            else if CHR ''@'' \<in> set k then
              (let parts = split_on CHR ''@'' k
               in if length parts \<noteq> 2
                  then Inl (DSLParseError ''Invalid type syntax - use Key@Type format''
                              (Some lineNumber) (Some line))
                  else if trim (parts ! 1) = []
                  then Inl (DSLParseError ''Empty type not allowed'' (Some lineNumber) (Some line))
                  else Inr (trim (parts ! 0), v, Some (trim (parts ! 1))))
            else Inr (k, v, None)))"

definition processValue :: "string \<Rightarrow> jsval" where
  "processValue v0 =
     (let v = (if startsWith v0 [dquote] \<and> endsWith v0 [dquote] then butlast (tl v0) else v0)
      in if CHR '','' \<in> set v
         then VArr (map VStr (filter (\<lambda>x. length x > 0) (map trim (split_on CHR '','' v))))
         else VStr v)"

text \<open>\<open>handleMultilineContent\<close> returns its flag and the buffer after the push.\<close>

definition handleMultilineContent :: "string \<Rightarrow> string list \<Rightarrow> bool \<times> string list" where
  "handleMultilineContent line multilineBuffer =
     (if endsWith (trim line) triple_quote
      then (True, multilineBuffer @ [take (length (trim line) - 3) (trim line)])
      else (False, multilineBuffer @ [line]))"

text \<open>
  The state of one \<open>parseAuthorDSL\<close> call: the store of frames, the stack of frame
  addresses (top last, as \<open>push\<close> and \<open>pop\<close> work), the open block names, and the
  three multiline variables.
\<close>

record parse_state =
  heap :: "frame list"
  stack :: "nat list"
  blockNames :: "string list"
  inMultiline :: bool
  multilineKey :: "string option"
  multilineBuffer :: "string list"

definition init_state :: parse_state where
  "init_state =
     \<lparr> heap = [Frame []], stack = [0], blockNames = [], inMultiline = False, multilineKey = None,
       multilineBuffer = [] \<rparr>"

text \<open>
  \<open>stack[stack.length - 1]\<close>: \<open>undefined\<close> on an empty stack, where every later read of
  a property throws a \<open>TypeError\<close>.
\<close>

definition current :: "parse_state \<Rightarrow> nat option" where
  "current s = (if stack s = [] then None else Some (last (stack s)))"

definition assign_current :: "parse_state \<Rightarrow> string \<Rightarrow> jsval \<Rightarrow> error + parse_state" where
  "assign_current s k v =
     (case current s of
        None \<Rightarrow> Inl (TypeError ''Cannot read properties of undefined'')
      | Some a \<Rightarrow> Inr (s\<lparr> heap := (heap s)[a := assignValue (heap s ! a) k v] \<rparr>))"

text \<open>
  \<open>member_push\<close> is \<open>r.push\<close> for a value \<open>r\<close> that is no array: the member of an object
  literal or of a frame, and \<open>undefined\<close> on a string, a number, a boolean or a
  function. \<open>None\<close> where the model does not keep the member.
\<close>

fun member_push :: "frame list \<Rightarrow> jsval \<Rightarrow> jsval option" where
  "member_push h (VRec fs) = Some (get_prop fs ''push'')"
| "member_push h (VObj b) =
     (if b < length h
      then (case h ! b of Frame obj \<Rightarrow> Some (get_prop obj ''push'') | ProtoReplaced \<Rightarrow> None)
      else None)"
| "member_push h r = Some VUndefined"

text \<open>
  The last three statements of \<open>handleBlockStart\<close>, on the current frame at address \<open>a\<close>
  with the own properties \<open>cur\<close> and \<open>r = current[name]\<close>: \<open>r.push(newBlock)\<close>, then the
  two pushes on the stacks. The new block \<open>{}\<close> takes the next free address. An array
  is extended in place; any other value has no callable \<open>push\<close> and the call throws,
  unless the value is an object that holds a function under \<open>push\<close>.
\<close>

definition push_block ::
  "parse_state \<Rightarrow> nat \<Rightarrow> props \<Rightarrow> string \<Rightarrow> jsval \<Rightarrow> error + parse_state" where
  "push_block s a cur name r =
     (let newBlock = length (heap s)
      in case r of
           VArr xs \<Rightarrow>
             Inr (s\<lparr> heap := (heap s)[a := Frame (AList.update name (VArr (xs @ [VObj newBlock])) cur)]
                                @ [Frame []],
                     stack := stack s @ [newBlock],
                     blockNames := blockNames s @ [name] \<rparr>)
         | other \<Rightarrow>
             (case member_push (heap s) r of
                None \<Rightarrow> Inl (Unmodelled ''call of a member of a frame whose prototype was replaced'')
              | Some m \<Rightarrow>
                  if callable m then Inl (Unmodelled ''call of a function held in a value'')
                  else Inl (TypeError ''current[name].push is not a function'')))"

definition handleBlockStart :: "string \<Rightarrow> nat \<Rightarrow> parse_state \<Rightarrow> error + parse_state" where
  "handleBlockStart line lineNumber s =
     (let name = trim (strip_keyword kw_Begin line)
      in if name = []
         then Inl (DSLParseError ''Empty block name not allowed'' (Some lineNumber) (Some line))
         else
           (case current s of
              None \<Rightarrow> Inl (TypeError ''Cannot read properties of undefined'')
            | Some a \<Rightarrow>
                (case heap s ! a of
                   ProtoReplaced \<Rightarrow> Inl (Unmodelled ''read on a frame whose prototype was replaced'')
                 | Frame cur \<Rightarrow>
                     (case (if \<not> truthy (get_prop cur name) then set_prop cur name (VArr [])
                            else Frame cur) of
                        ProtoReplaced \<Rightarrow>
                          Inl (Unmodelled ''read on a frame whose prototype was replaced'')
                      | Frame cur1 \<Rightarrow> push_block s a cur1 name (get_prop cur1 name)))))"

definition handleBlockEnd :: "string \<Rightarrow> nat \<Rightarrow> parse_state \<Rightarrow> error + parse_state" where
  "handleBlockEnd line lineNumber s =
     (let name = trim (strip_keyword kw_End line)
      in if name = []
         then Inl (DSLParseError ''Empty block name not allowed'' (Some lineNumber) (Some line))
         else if length (blockNames s) = 0
         then Inl (DSLParseError ''No open blocks to close'' (Some lineNumber) (Some line))
         else if last (blockNames s) \<noteq> name
         then Inl (DSLParseError
                     (''Mismatched End: expected '' @ [CHR 0x27] @ last (blockNames s) @ [CHR 0x27] @
                      '', got '' @ [CHR 0x27] @ name @ [CHR 0x27])
                     (Some lineNumber) (Some line))
         else Inr (s\<lparr> blockNames := butlast (blockNames s), stack := butlast (stack s) \<rparr>))"

text \<open>The context object that the parser hands to a hook.\<close>

definition block_context :: "nat \<Rightarrow> string \<Rightarrow> parse_state \<Rightarrow> plugin_context" where
  "block_context lineNumber rawLine s =
     \<lparr> ctx_lineNumber = lineNumber, ctx_line = rawLine, ctx_key = [], ctx_value = [],
       ctx_type = None, ctx_data = map_option (\<lambda>a. heap s ! a) (current s) \<rparr>"

definition statement_context ::
  "nat \<Rightarrow> string \<Rightarrow> string \<Rightarrow> string \<Rightarrow> string option \<Rightarrow> parse_state \<Rightarrow> plugin_context" where
  "statement_context lineNumber rawLine k v ty s =
     \<lparr> ctx_lineNumber = lineNumber, ctx_line = rawLine, ctx_key = k,
       ctx_value = (case processValue v of VStr sv \<Rightarrow> sv | other \<Rightarrow> v),
       ctx_type = ty, ctx_data = map_option (\<lambda>a. heap s ! a) (current s) \<rparr>"

text \<open>
  The key/value statement from \<open>let processedValue = processValue(value)\<close> on, with
  and without a plugin manager.
\<close>

definition assign_statement ::
  "plugin_manager option \<Rightarrow> nat \<Rightarrow> string \<Rightarrow> string \<Rightarrow> string \<Rightarrow> string option \<Rightarrow> parse_state
     \<Rightarrow> error + parse_state" where
  "assign_statement pluginManager lineNumber rawLine k v ty s =
     (let processedValue = processValue v
      in case pluginManager of
           Some pm \<Rightarrow>
             (let ctx = statement_context lineNumber rawLine k v ty s
              in case (case ty of
                         None \<Rightarrow> Inr processedValue
                       | Some t \<Rightarrow> if t = [] then Inr processedValue
                                  else PM_processValue pm v (Some t) ctx) of
                   Inl e \<Rightarrow> Inl e
                 | Inr pv \<Rightarrow>
                     (case PM_onKeyValue pm k pv ctx of
                        Inl e \<Rightarrow> Inl e
                      | Inr pluginResult \<Rightarrow> assign_current s (fst pluginResult) (snd pluginResult)))
         | None \<Rightarrow>
             (case ty of
                None \<Rightarrow> assign_current s k processedValue
              | Some t \<Rightarrow>
                  if t = [] then assign_current s k processedValue
                  else assign_current s k (VRec [(''type'', VStr t), (''value'', processedValue)])))"

text \<open>One turn of the \<open>for\<close> loop of \<open>parseAuthorDSL\<close>, on line \<open>lines[i]\<close> with \<open>lineNumber = i + 1\<close>.\<close>

definition parse_line ::
  "plugin_manager option \<Rightarrow> nat \<Rightarrow> string \<Rightarrow> parse_state \<Rightarrow> error + parse_state" where
  "parse_line pluginManager lineNumber rawLine s =
     (if inMultiline s then
        (case handleMultilineContent rawLine (multilineBuffer s) of
           (True, buf) \<Rightarrow>
             (case assign_current (s\<lparr> multilineBuffer := buf \<rparr>)
                     (case multilineKey s of None \<Rightarrow> ''null'' | Some k \<Rightarrow> k)
                     (VStr (trim (join [newline] buf))) of
                Inl e \<Rightarrow> Inl e
              | Inr s' \<Rightarrow> Inr (s'\<lparr> inMultiline := False, multilineKey := None, multilineBuffer := [] \<rparr>))
         | (False, buf) \<Rightarrow> Inr (s\<lparr> multilineBuffer := buf \<rparr>))
      else
        (let line = trim rawLine
         in if line = [] \<or> startsWith line ''#'' then Inr s
            else if match_keyword kw_Begin line \<noteq> None then
              (let blockName = trim (strip_keyword kw_Begin line)
               in case (case pluginManager of
                          None \<Rightarrow> Inr ()
                        | Some pm \<Rightarrow> PM_onBlockStart pm blockName (block_context lineNumber rawLine s)) of
                    Inl e \<Rightarrow> Inl e
                  | Inr u \<Rightarrow> handleBlockStart line lineNumber s)
            else if match_keyword kw_End line \<noteq> None then
              (let blockName = trim (strip_keyword kw_End line)
               in case (case pluginManager of
                          None \<Rightarrow> Inr ()
                        | Some pm \<Rightarrow> PM_onBlockEnd pm blockName (block_context lineNumber rawLine s)) of
                    Inl e \<Rightarrow> Inl e
                  | Inr u \<Rightarrow> handleBlockEnd line lineNumber s)
            else
              (case parseKeyValue line lineNumber of
                 Inl e \<Rightarrow> Inl e
               | Inr (k, v, ty) \<Rightarrow>
                   if startsWith v triple_quote
                   then Inr (s\<lparr> inMultiline := True, multilineKey := Some k,
                                multilineBuffer := (if length (drop 3 v) > 0 then [drop 3 v] else []) \<rparr>)
                   else assign_statement pluginManager lineNumber rawLine k v ty s)))"

text \<open>The \<open>for\<close> loop: the lines in order, stopping at the first error.\<close>

fun parse_lines ::
  "plugin_manager option \<Rightarrow> nat \<Rightarrow> string list \<Rightarrow> parse_state \<Rightarrow> error + parse_state" where
  "parse_lines pluginManager lineNumber [] s = Inr s"
| "parse_lines pluginManager lineNumber (l # ls) s =
     (case parse_line pluginManager lineNumber l s of
        Inl e \<Rightarrow> Inl e
      | Inr s' \<Rightarrow> parse_lines pluginManager (Suc lineNumber) ls s')"

text \<open>
  \<open>parse_engine\<close> is \<open>parseAuthorDSL\<close> from \<open>const lines = processedInput.split(...)\<close> to its
  end: the loop, the two end-of-input checks and \<open>afterParse\<close>.
\<close>

definition parse_engine :: "plugin_manager option \<Rightarrow> string \<Rightarrow> error + document" where
  "parse_engine pluginManager processedInput =
     (case parse_lines pluginManager 1 (split_lines processedInput) init_state of
        Inl e \<Rightarrow> Inl e
      | Inr s \<Rightarrow>
          if length (stack s) \<noteq> 1
          then Inl (DSLParseError (''Unclosed block(s): '' @ join '', '' (blockNames s)) None None)
          else if inMultiline s
          then Inl (DSLParseError
                      (''Unclosed multiline value for key: '' @
                       (case multilineKey s of None \<Rightarrow> ''null'' | Some k \<Rightarrow> k)) None None)
          else
            (let result = \<lparr> d_heap = heap s, d_root = hd (stack s) \<rparr>
             in case pluginManager of
                  None \<Rightarrow> Inr result
                | Some pm \<Rightarrow> PM_afterParse pm result))"

definition parseAuthorDSL :: "string \<Rightarrow> plugin_manager option \<Rightarrow> error + document" where
  "parseAuthorDSL input pluginManager =
     (case validateInput input of
        Some e \<Rightarrow> Inl e
      | None \<Rightarrow>
          (case (case pluginManager of
                   None \<Rightarrow> Inr input
                 | Some pm \<Rightarrow> PM_beforeParse pm input) of
             Inl e \<Rightarrow> Inl e
           | Inr processedInput \<Rightarrow> parse_engine pluginManager processedInput))"

text \<open>The relation between the two stacks that every turn of the loop keeps.\<close>

definition depth_inv :: "parse_state \<Rightarrow> bool" where
  "depth_inv s = (length (stack s) = Suc (length (blockNames s)))"

text \<open>The state of the loop after the single line \<open>Begin P\<close>.\<close>

definition after_Begin_P :: parse_state where
  "after_Begin_P =
     \<lparr> heap = [Frame [(''P'', VArr [VObj 1])], Frame []], stack = [0, 1], blockNames = [''P''],
       inMultiline = False, multilineKey = None, multilineBuffer = [] \<rparr>"

text \<open>The same state after the line \<open>End P\<close>.\<close>

definition after_End_P :: parse_state where
  "after_End_P = after_Begin_P\<lparr> stack := [0], blockNames := [] \<rparr>"

text \<open>The test of \<open>handleMultilineContent\<close>: the trimmed line ends with the marker.\<close>

definition closes :: "string \<Rightarrow> bool" where
  "closes l = endsWith (trim l) triple_quote"

section \<open>Example plugins\<close>

text \<open>A plugin object with its metadata and no other member.\<close>

definition bare_plugin :: "nat \<Rightarrow> string \<Rightarrow> plugin" where
  "bare_plugin i n =
     \<lparr> p_id = i, p_name = n, p_initialize = None, p_destroy = None, p_supportedTypes = None,
       p_processValue = None, p_validate = None, p_supportedFormats = None, p_format = None,
       p_beforeParse = None, p_afterParse = None, p_onKeyValue = None, p_onBlockStart = None,
       p_onBlockEnd = None \<rparr>"

definition no_options :: plugin_options where
  "no_options = \<lparr> o_enabled = None, o_priority = None \<rparr>"

text \<open>A parse hook whose \<open>beforeParse\<close> always throws.\<close>

definition throwing_hook :: plugin where
  "throwing_hook = (bare_plugin 1 ''thrower'')\<lparr> p_beforeParse := Some (\<lambda>input. Inl ''boom'') \<rparr>"

definition throwing_manager :: plugin_manager where
  "throwing_manager = fst (register throwing_hook no_options new_PluginManager)"

text \<open>A parse hook whose \<open>onKeyValue\<close> files every value under the key \<open>Seen\<close>.\<close>

definition renaming_hook :: plugin where
  "renaming_hook =
     (bare_plugin 2 ''renamer'')\<lparr> p_onKeyValue := Some (\<lambda>k v ctx. Inr (Some (''Seen'', v))) \<rparr>"

definition renaming_manager :: plugin_manager where
  "renaming_manager = fst (register renaming_hook no_options new_PluginManager)"

text \<open>Two type handlers that share the tag \<open>x\<close>, registered \<open>A\<close> then \<open>B\<close>.\<close>

definition type_plugin_A :: plugin where
  "type_plugin_A =
     (bare_plugin 3 ''A'')\<lparr> p_supportedTypes := Some [''x'', ''y''],
                            p_processValue := Some (\<lambda>v t ctx. Inr (VStr (''A:'' @ v))) \<rparr>"

definition type_plugin_B :: plugin where
  "type_plugin_B =
     (bare_plugin 4 ''B'')\<lparr> p_supportedTypes := Some [''x''],
                            p_processValue := Some (\<lambda>v t ctx. Inr (VStr (''B:'' @ v))) \<rparr>"

definition manager_A_B :: plugin_manager where
  "manager_A_B =
     fst (register type_plugin_B no_options (fst (register type_plugin_A no_options new_PluginManager)))"

text \<open>
  Three validators: the second throws. \<open>V3\<close> is registered after \<open>V1\<close> with priority 5,
  so it runs first.
\<close>

definition validator_1 :: plugin where
  "validator_1 = (bare_plugin 5 ''V1'')\<lparr> p_validate := Some (\<lambda>d. Inr [''w1'']) \<rparr>"

definition validator_2 :: plugin where
  "validator_2 = (bare_plugin 6 ''V2'')\<lparr> p_validate := Some (\<lambda>d. Inl ''bad'') \<rparr>"

definition validator_3 :: plugin where
  "validator_3 = (bare_plugin 7 ''V3'')\<lparr> p_validate := Some (\<lambda>d. Inr [''w3'']) \<rparr>"

definition priority_5 :: plugin_options where
  "priority_5 = \<lparr> o_enabled = None, o_priority = Some 5 \<rparr>"

definition validators_ok :: plugin_manager where
  "validators_ok =
     fst (register validator_3 priority_5 (fst (register validator_1 no_options new_PluginManager)))"

definition validators_bad :: plugin_manager where
  "validators_bad = fst (register validator_2 no_options validators_ok)"

definition empty_document :: document where
  "empty_document = \<lparr> d_heap = [Frame []], d_root = 0 \<rparr>"

text \<open>Two formatters that both declare the tag \<open>json\<close>, registered \<open>F1\<close> then \<open>F2\<close>.\<close>

definition formatter_1 :: plugin where
  "formatter_1 = (bare_plugin 8 ''F1'')\<lparr> p_supportedFormats := Some [''json''],
                                          p_format := Some (\<lambda>d options. Inr ''first'') \<rparr>"

definition formatter_2 :: plugin where
  "formatter_2 = (bare_plugin 9 ''F2'')\<lparr> p_supportedFormats := Some [''json'', ''yaml''],
                                          p_format := Some (\<lambda>d options. Inr ''second'') \<rparr>"

definition two_formatters :: plugin_manager where
  "two_formatters =
     fst (register formatter_2 no_options (fst (register formatter_1 no_options new_PluginManager)))"

text \<open>Two parse hooks of equal priority whose \<open>beforeParse\<close> each append a line.\<close>

definition hook_P1 :: plugin where
  "hook_P1 = (bare_plugin 10 ''P1'')\<lparr> p_beforeParse := Some (\<lambda>input. Inr (input @ [newline] @ ''P1: yes'')) \<rparr>"

definition hook_P2 :: plugin where
  "hook_P2 = (bare_plugin 11 ''P2'')\<lparr> p_beforeParse := Some (\<lambda>input. Inr (input @ [newline] @ ''P2: yes'')) \<rparr>"

definition two_hooks :: plugin_manager where
  "two_hooks = fst (register hook_P2 no_options (fst (register hook_P1 no_options new_PluginManager)))"

section \<open>Example inputs\<close>

text \<open>The line \<open>Key@custom: "a, b"\<close> and its right-hand side.\<close>

definition custom_line :: string where
  "custom_line = ''Key@custom: '' @ [dquote] @ ''a, b'' @ [dquote]"

definition custom_rhs :: string where
  "custom_rhs = [dquote] @ ''a, b'' @ [dquote]"

text \<open>The line \<open>K@t: """abc\<close>.\<close>

definition typed_opener :: string where
  "typed_opener = ''K@t: '' @ triple_quote @ ''abc''"

text \<open>Three lines: \<open>Bio: """\<close>, \<open>line1\<close>, \<open>"""\<close>.\<close>

definition multiline_input :: string where
  "multiline_input = ''Bio: '' @ triple_quote @ [newline] @ ''line1'' @ [newline] @ triple_quote"

text \<open>Four lines: \<open>Bio@multiline: """\<close>, \<open>line1\<close>, \<open>line2\<close>, \<open>"""\<close>; and the state after the first.\<close>

definition bio_input :: string where
  "bio_input = ''Bio@multiline: '' @ triple_quote @ [newline] @ ''line1'' @ [newline] @ ''line2''
                 @ [newline] @ triple_quote"

definition bio_open :: parse_state where
  "bio_open = init_state\<lparr> inMultiline := True, multilineKey := Some ''Bio'' \<rparr>"

section \<open>Empty input\<close>

text \<open>
  C9. An input whose trimmed form is empty makes \<open>parseAuthorDSL\<close> throw the
  \<open>DSLParseError\<close> with message \<open>Input cannot be empty\<close> and no line number, with or
  without a plugin manager: no hook runs and no line is read before it.
\<close>

theorem parseAuthorDSL_empty_input:
  assumes "trim input = []"
  shows "parseAuthorDSL input pluginManager = Inl (DSLParseError ''Input cannot be empty'' None None)
         \<and> DSLParseError_message ''Input cannot be empty'' None = ''Input cannot be empty''"
  using assms by (simp add: parseAuthorDSL_def validateInput_def DSLParseError_message_def)

theorem parseAuthorDSL_empty_input_witness:
  "trim ('' '' @ [newline, CHR 0x09]) = []
   \<and> PM_beforeParse throwing_manager ('' '' @ [newline, CHR 0x09])
       = Inl (PluginError ''thrower'' ''BEFORE_PARSE_FAILED'' ''Plugin thrower error: boom'')
   \<and> parseAuthorDSL ('' '' @ [newline, CHR 0x09]) (Some throwing_manager)
       = Inl (DSLParseError ''Input cannot be empty'' None None)"
proof -
  have blank: "trim ('' '' @ [newline, CHR 0x09]) = []"
    by (simp add: trim_def is_ws_def)
  have hook: "PM_beforeParse throwing_manager ('' '' @ [newline, CHR 0x09])
       = Inl (PluginError ''thrower'' ''BEFORE_PARSE_FAILED'' ''Plugin thrower error: boom'')"
    by code_simp
  from parseAuthorDSL_empty_input [OF blank, of "Some throwing_manager"] blank hook
  show ?thesis by simp
qed


section \<open>The two stacks\<close>

lemma assign_current_frame:
  "assign_current s k v = Inr s' \<Longrightarrow>
     stack s' = stack s \<and> blockNames s' = blockNames s \<and> inMultiline s' = inMultiline s
     \<and> multilineKey s' = multilineKey s \<and> multilineBuffer s' = multilineBuffer s"
  by (auto simp: assign_current_def split: option.splits)

lemma handleBlockStart_depth:
  "handleBlockStart line n s = Inr s' \<Longrightarrow>
     stack s' = stack s @ [length (heap s)]
     \<and> blockNames s' = blockNames s @ [trim (strip_keyword kw_Begin line)]
     \<and> inMultiline s' = inMultiline s"
  by (auto simp: handleBlockStart_def push_block_def Let_def
           split: option.splits if_splits jsval.splits frame.splits)

lemma handleBlockEnd_depth:
  "handleBlockEnd line n s = Inr s' \<Longrightarrow>
     blockNames s \<noteq> [] \<and> stack s' = butlast (stack s) \<and> blockNames s' = butlast (blockNames s)
     \<and> inMultiline s' = inMultiline s"
  by (auto simp: handleBlockEnd_def Let_def split: if_splits)

lemma assign_statement_frame:
  "assign_statement pm n raw k v ty s = Inr s' \<Longrightarrow>
     stack s' = stack s \<and> blockNames s' = blockNames s \<and> inMultiline s' = inMultiline s"
  by (auto simp: assign_statement_def Let_def split: option.splits sum.splits if_splits
           dest!: assign_current_frame)

lemma parse_line_depth:
  assumes "depth_inv s" "parse_line pm n l s = Inr s'"
  shows "depth_inv s'"
proof (cases "inMultiline s")
  case True
  with assms show ?thesis
    by (auto simp: parse_line_def depth_inv_def split: prod.splits bool.splits sum.splits if_splits
             dest!: assign_current_frame)
next
  case False
  with assms show ?thesis
    by (auto simp: parse_line_def depth_inv_def Let_def
             split: prod.splits sum.splits if_splits option.splits
             dest!: assign_statement_frame handleBlockStart_depth handleBlockEnd_depth)
qed

lemma parse_lines_depth:
  "depth_inv s \<Longrightarrow> parse_lines pm n ls s = Inr s' \<Longrightarrow> depth_inv s'"
proof (induction ls arbitrary: s n)
  case Nil
  then show ?case by simp
next
  case (Cons l ls)
  then show ?case
    by (auto split: sum.splits dest: parse_line_depth)
qed

text \<open>
  C4, as the code has it. The root frame has no name, so the frame stack is one deeper
  than the stack of open block names: after any number of lines of a parse call the
  depth of the frame stack is the depth of the name stack plus one (hence at least 1),
  and a call that returns a document ended its loop with the frame stack at depth 1,
  the name stack empty and no multiline value open.
\<close>

theorem stack_depth_invariant:
  "(parse_lines pluginManager 1 ls init_state = Inr s \<longrightarrow>
      length (stack s) = length (blockNames s) + 1 \<and> 1 \<le> length (stack s))
   \<and> (parseAuthorDSL input pluginManager = Inr d \<longrightarrow>
      (\<exists>processedInput s'.
          (case pluginManager of None \<Rightarrow> Inr input | Some pm \<Rightarrow> PM_beforeParse pm input)
            = Inr processedInput
          \<and> parse_lines pluginManager 1 (split_lines processedInput) init_state = Inr s'
          \<and> length (stack s') = 1 \<and> length (blockNames s') = 0 \<and> \<not> inMultiline s'))"
proof (intro conjI impI)
  assume run: "parse_lines pluginManager 1 ls init_state = Inr s"
  have "depth_inv init_state"
    by (simp add: depth_inv_def init_state_def)
  from parse_lines_depth [OF this run]
  show "length (stack s) = length (blockNames s) + 1" by (simp add: depth_inv_def)
  then show "1 \<le> length (stack s)" by simp
next
  assume ok: "parseAuthorDSL input pluginManager = Inr d"
  then obtain processedInput where
    pre: "(case pluginManager of None \<Rightarrow> Inr input | Some pm \<Rightarrow> PM_beforeParse pm input)
            = Inr processedInput"
    and eng: "parse_engine pluginManager processedInput = Inr d"
    by (auto simp: parseAuthorDSL_def split: option.splits sum.splits)
  from eng obtain s' where
    run: "parse_lines pluginManager 1 (split_lines processedInput) init_state = Inr s'"
    and one: "length (stack s') = 1" and closed: "\<not> inMultiline s'"
    by (auto simp: parse_engine_def split: sum.splits if_splits)
  have "depth_inv init_state"
    by (simp add: depth_inv_def init_state_def)
  from parse_lines_depth [OF this run] one have "length (blockNames s') = 0"
    by (simp add: depth_inv_def)
  with pre run one closed
  show "\<exists>processedInput s'.
          (case pluginManager of None \<Rightarrow> Inr input | Some pm \<Rightarrow> PM_beforeParse pm input)
            = Inr processedInput
          \<and> parse_lines pluginManager 1 (split_lines processedInput) init_state = Inr s'
          \<and> length (stack s') = 1 \<and> length (blockNames s') = 0 \<and> \<not> inMultiline s'"
    by blast
qed

theorem stack_depth_invariant_witness:
  "parse_lines None 1 [''Begin P''] init_state = Inr after_Begin_P
   \<and> length (stack after_Begin_P) = length (blockNames after_Begin_P) + 1
   \<and> parseAuthorDSL (''Begin P'' @ [newline] @ ''End P'') None
       = Inr \<lparr> d_heap = [Frame [(''P'', VArr [VObj 1])], Frame []], d_root = 0 \<rparr>
   \<and> (\<exists>s'. parse_lines None 1 (split_lines (''Begin P'' @ [newline] @ ''End P'')) init_state = Inr s'
          \<and> length (stack s') = 1 \<and> length (blockNames s') = 0 \<and> \<not> inMultiline s')"
proof -
  have run: "parse_lines None 1 [''Begin P''] init_state = Inr after_Begin_P"
    by code_simp
  have doc: "parseAuthorDSL (''Begin P'' @ [newline] @ ''End P'') None
       = Inr \<lparr> d_heap = [Frame [(''P'', VArr [VObj 1])], Frame []], d_root = 0 \<rparr>"
    by code_simp
  from stack_depth_invariant
         [of None "[''Begin P'']" after_Begin_P "''Begin P'' @ [newline] @ ''End P''"
             "\<lparr> d_heap = [Frame [(''P'', VArr [VObj 1])], Frame []], d_root = 0 \<rparr>"]
       run doc
  show ?thesis by auto
qed

text \<open>
  The claim as stated fails on the first \<open>Begin\<close> line (and on the initial state): the
  frame stack holds the root and the new block, the name stack holds one name.
\<close>

theorem stack_depth_counterexample:
  "parse_lines None 1 [''Begin P''] init_state = Inr after_Begin_P
   \<and> length (stack after_Begin_P) = 2 \<and> length (blockNames after_Begin_P) = 1
   \<and> length (stack init_state) = 1 \<and> length (blockNames init_state) = 0"
  by code_simp

section \<open>Key collisions\<close>

lemma update_absent: "map_of obj k = None \<Longrightarrow> AList.update k v obj = obj @ [(k, v)]"
  by (induction obj) (auto split: if_splits)

lemma get_prop_absent:
  "k \<notin> set object_prototype_keys \<Longrightarrow> map_of obj k = None \<Longrightarrow> get_prop obj k = VUndefined"
  by (simp add: get_prop_def)

lemma get_prop_own: "map_of obj k = Some x \<Longrightarrow> get_prop obj k = x"
  by (simp add: get_prop_def)

lemma proto_inherited: "''__proto__'' \<in> set object_prototype_keys"
  by (simp add: object_prototype_keys_def)

lemma set_prop_plain:
  "k \<notin> set object_prototype_keys \<Longrightarrow> set_prop obj k v = Frame (AList.update k v obj)"
  using proto_inherited by (auto simp: set_prop_def)

text \<open>
  C2, as the code has it. For a frame with its prototype untouched and a key that does
  not name a member inherited from \<open>Object.prototype\<close>, what \<open>assignValue\<close> does depends
  on what the frame holds under the key: no property, the single value is stored (as
  the last property); a list (a comma-list, a list of blocks, the list of an earlier
  collision), the new value is appended to that list; a non-empty string or a typed
  \<open>{type, value}\<close> pair, it is promoted to the two-element list of the stored and the
  new value. A \<open>Begin\<close> line whose block name, likewise no inherited member name, has
  no property in the current frame stores the one-element list of its new block, and
  appends the new block where a list is stored under the name. The lines \<open>A: 1\<close>,
  \<open>A: 2\<close>, \<open>A: 3\<close> give the list of the three strings.
\<close>

theorem key_collision_rule:
  assumes "k \<notin> set object_prototype_keys"
  shows "(map_of obj k = None \<longrightarrow> assignValue (Frame obj) k v = Frame (obj @ [(k, v)]))
       \<and> (map_of obj k = Some (VArr xs) \<longrightarrow>
            assignValue (Frame obj) k v = Frame (AList.update k (VArr (xs @ [v])) obj))
       \<and> (map_of obj k = Some (VStr (c # cs)) \<longrightarrow>
            assignValue (Frame obj) k v = Frame (AList.update k (VArr [VStr (c # cs), v]) obj))
       \<and> (map_of obj k = Some (VRec fs) \<longrightarrow>
            assignValue (Frame obj) k v = Frame (AList.update k (VArr [VRec fs, v]) obj))
       \<and> (current s = Some a \<and> heap s ! a = Frame obj
            \<and> trim (strip_keyword kw_Begin line) = k \<and> k \<noteq> [] \<and> map_of obj k = None \<longrightarrow>
            handleBlockStart line n s
              = Inr (s\<lparr> heap := (heap s)[a := Frame (obj @ [(k, VArr [VObj (length (heap s))])])]
                                  @ [Frame []],
                       stack := stack s @ [length (heap s)],
                       blockNames := blockNames s @ [k] \<rparr>))
       \<and> (current s = Some a \<and> heap s ! a = Frame obj
            \<and> trim (strip_keyword kw_Begin line) = k \<and> k \<noteq> [] \<and> map_of obj k = Some (VArr xs) \<longrightarrow>
            handleBlockStart line n s
              = Inr (s\<lparr> heap := (heap s)[a := Frame (AList.update k
                                                     (VArr (xs @ [VObj (length (heap s))])) obj)]
                                  @ [Frame []],
                       stack := stack s @ [length (heap s)],
                       blockNames := blockNames s @ [k] \<rparr>))
       \<and> parseAuthorDSL (''A: 1'' @ [newline] @ ''A: 2'' @ [newline] @ ''A: 3'') None
            = Inr \<lparr> d_heap = [Frame [(''A'', VArr [VStr ''1'', VStr ''2'', VStr ''3''])]], d_root = 0 \<rparr>"
proof (intro conjI impI)
  show "parseAuthorDSL (''A: 1'' @ [newline] @ ''A: 2'' @ [newline] @ ''A: 3'') None
            = Inr \<lparr> d_heap = [Frame [(''A'', VArr [VStr ''1'', VStr ''2'', VStr ''3''])]], d_root = 0 \<rparr>"
    by code_simp
next
  assume "map_of obj k = None"
  with assms show "assignValue (Frame obj) k v = Frame (obj @ [(k, v)])"
    by (simp add: get_prop_absent set_prop_plain update_absent)
next
  assume "map_of obj k = Some (VArr xs)"
  then show "assignValue (Frame obj) k v = Frame (AList.update k (VArr (xs @ [v])) obj)"
    by (simp add: get_prop_own)
next
  assume "map_of obj k = Some (VStr (c # cs))"
  with assms
  show "assignValue (Frame obj) k v = Frame (AList.update k (VArr [VStr (c # cs), v]) obj)"
    by (simp add: get_prop_own set_prop_plain)
next
  assume "map_of obj k = Some (VRec fs)"
  with assms show "assignValue (Frame obj) k v = Frame (AList.update k (VArr [VRec fs, v]) obj)"
    by (simp add: get_prop_own set_prop_plain)
next
  assume h: "current s = Some a \<and> heap s ! a = Frame obj
            \<and> trim (strip_keyword kw_Begin line) = k \<and> k \<noteq> [] \<and> map_of obj k = None"
  then have fresh: "map_of obj k = None" by simp
  have rd: "get_prop (obj @ [(k, VArr [])]) k = VArr []"
    using fresh by (simp add: get_prop_def map_add_def)
  have upd: "AList.update k (VArr [VObj (length (heap s))]) (obj @ [(k, VArr [])])
               = obj @ [(k, VArr [VObj (length (heap s))])]"
    using fresh by (induction obj) (auto split: if_splits)
  from h assms
  show "handleBlockStart line n s
          = Inr (s\<lparr> heap := (heap s)[a := Frame (obj @ [(k, VArr [VObj (length (heap s))])])]
                              @ [Frame []],
                   stack := stack s @ [length (heap s)],
                   blockNames := blockNames s @ [k] \<rparr>)"
    by (simp add: handleBlockStart_def push_block_def Let_def get_prop_absent set_prop_plain
          rd upd update_absent)
next
  assume h: "current s = Some a \<and> heap s ! a = Frame obj
            \<and> trim (strip_keyword kw_Begin line) = k \<and> k \<noteq> [] \<and> map_of obj k = Some (VArr xs)"
  then show "handleBlockStart line n s
          = Inr (s\<lparr> heap := (heap s)[a := Frame (AList.update k
                                                 (VArr (xs @ [VObj (length (heap s))])) obj)]
                              @ [Frame []],
                   stack := stack s @ [length (heap s)],
                   blockNames := blockNames s @ [k] \<rparr>)"
    by (simp add: handleBlockStart_def push_block_def Let_def get_prop_own)
qed


theorem key_collision_rule_witness:
  "''A'' \<notin> set object_prototype_keys \<and> ''P'' \<notin> set object_prototype_keys
   \<and> assignValue (Frame []) ''A'' (VStr ''1'') = Frame [(''A'', VStr ''1'')]
   \<and> assignValue (Frame [(''A'', VStr ''1'')]) ''A'' (VStr ''2'')
       = Frame [(''A'', VArr [VStr ''1'', VStr ''2''])]
   \<and> assignValue (Frame [(''A'', VArr [VStr ''1'', VStr ''2''])]) ''A'' (VStr ''3'')
       = Frame [(''A'', VArr [VStr ''1'', VStr ''2'', VStr ''3''])]
   \<and> handleBlockStart ''Begin P'' 1 init_state = Inr after_Begin_P
   \<and> handleBlockStart ''Begin P'' 3 after_End_P
       = Inr \<lparr> heap = [Frame [(''P'', VArr [VObj 1, VObj 2])], Frame [], Frame []],
               stack = [0, 2], blockNames = [''P''], inMultiline = False, multilineKey = None,
               multilineBuffer = [] \<rparr>"
proof -
  have kA: "''A'' \<notin> set object_prototype_keys" by (simp add: object_prototype_keys_def)
  have kP: "''P'' \<notin> set object_prototype_keys" by (simp add: object_prototype_keys_def)
  have a1: "assignValue (Frame []) ''A'' (VStr ''1'') = Frame [(''A'', VStr ''1'')]"
    using key_collision_rule [OF kA, where obj = "[]" and v = "VStr ''1''"] by simp
  have a2: "assignValue (Frame [(''A'', VStr ''1'')]) ''A'' (VStr ''2'')
       = Frame [(''A'', VArr [VStr ''1'', VStr ''2''])]"
    using key_collision_rule [OF kA, where obj = "[(''A'', VStr ''1'')]" and v = "VStr ''2''"
        and c = "CHR ''1''" and cs = "[]"]
    by simp
  have a3: "assignValue (Frame [(''A'', VArr [VStr ''1'', VStr ''2''])]) ''A'' (VStr ''3'')
       = Frame [(''A'', VArr [VStr ''1'', VStr ''2'', VStr ''3''])]"
    using key_collision_rule [OF kA, where obj = "[(''A'', VArr [VStr ''1'', VStr ''2''])]"
        and v = "VStr ''3''" and xs = "[VStr ''1'', VStr ''2'']"]
    by simp
  have nm: "trim (strip_keyword kw_Begin ''Begin P'') = ''P''" by code_simp
  have b1: "handleBlockStart ''Begin P'' 1 init_state = Inr after_Begin_P"
    using key_collision_rule [OF kP, where obj = "[]" and s = init_state and a = 0
        and line = "''Begin P''" and n = 1] nm
    by (simp add: init_state_def after_Begin_P_def current_def)
  have b2: "handleBlockStart ''Begin P'' 3 after_End_P
       = Inr \<lparr> heap = [Frame [(''P'', VArr [VObj 1, VObj 2])], Frame [], Frame []],
               stack = [0, 2], blockNames = [''P''], inMultiline = False, multilineKey = None,
               multilineBuffer = [] \<rparr>"
    using key_collision_rule [OF kP, where obj = "[(''P'', VArr [VObj 1])]" and s = after_End_P
        and a = 0 and line = "''Begin P''" and n = 3 and xs = "[VObj 1]"] nm
    by (simp add: after_End_P_def after_Begin_P_def current_def)
  from kA kP a1 a2 a3 b1 b2 show ?thesis by (intro conjI)
qed

text \<open>
  The claim as stated fails for a comma-list: after \<open>A: 1, 2\<close> the line \<open>A: 3\<close> appends to
  the stored list instead of pairing the stored list with the new value. It fails on
  a first occurrence as well: the single line \<open>toString: x\<close> stores the inherited
  function paired with the value, and the single block \<open>Begin P\<close>, \<open>End P\<close> is stored as
  a one-element list.
\<close>

theorem key_collision_counterexample:
  "parseAuthorDSL (''A: 1, 2'' @ [newline] @ ''A: 3'') None
     = Inr \<lparr> d_heap = [Frame [(''A'', VArr [VStr ''1'', VStr ''2'', VStr ''3''])]], d_root = 0 \<rparr>
   \<and> doc_get \<lparr> d_heap = [Frame [(''A'', VArr [VStr ''1'', VStr ''2'', VStr ''3''])]], d_root = 0 \<rparr> ''A''
       \<noteq> Some (VArr [VArr [VStr ''1'', VStr ''2''], VStr ''3''])
   \<and> parseAuthorDSL ''toString: x'' None
     = Inr \<lparr> d_heap = [Frame [(''toString'', VArr [VBuiltin ''toString'', VStr ''x''])]],
             d_root = 0 \<rparr>
   \<and> parseAuthorDSL (''Begin P'' @ [newline] @ ''End P'') None
     = Inr \<lparr> d_heap = [Frame [(''P'', VArr [VObj 1])], Frame []], d_root = 0 \<rparr>"
  by code_simp

section \<open>Type annotations without a handler\<close>

lemma parseKeyValue_type_nonempty:
  "parseKeyValue line n = Inr (k, v, Some t) \<Longrightarrow> t \<noteq> []"
  by (auto simp: parseKeyValue_def Let_def split: if_splits)

text \<open>
  C1, as the code has it. A line read as a key/value statement whose key carries the
  annotation \<open>@T\<close>, whose key is not \<open>__proto__\<close> and whose right-hand side does not
  start with the triple-quote marker (a line that does opens a multiline value, and
  its annotation is dropped): without a plugin manager the parser assigns under the
  key, with \<open>assignValue\<close>, the pair \<open>{type: T, value: v}\<close>, \<open>v\<close> the comma/quote-processed
  right-hand side. With a plugin manager that has no handler for \<open>T\<close> no pair is built:
  \<open>PluginManager.processValue\<close> returns the trimmed right-hand side as it stands, that
  string goes through the \<open>onKeyValue\<close> chain, and the key and value the chain returns
  are assigned with \<open>assignValue\<close> (the string itself under the line's key when no parse
  hook is registered).
\<close>

theorem unhandled_type_annotation:
  assumes "\<not> inMultiline s"
      and "trim rawLine \<noteq> []" and "\<not> startsWith (trim rawLine) ''#''"
      and "match_keyword kw_Begin (trim rawLine) = None"
      and "match_keyword kw_End (trim rawLine) = None"
      and "parseKeyValue (trim rawLine) n = Inr (k, v, Some t)"
      and "\<not> startsWith v triple_quote"
      and "k \<noteq> ''__proto__''"
      and "map_of (typePlugins pm) t = None"
  shows "parse_line None n rawLine s
           = assign_current s k (VRec [(''type'', VStr t), (''value'', processValue v)])
       \<and> parse_line (Some pm) n rawLine s
           = (case PM_onKeyValue pm k (VStr v) (statement_context n rawLine k v (Some t) s) of
                Inl e \<Rightarrow> Inl e
              | Inr pluginResult \<Rightarrow> assign_current s (fst pluginResult) (snd pluginResult))
       \<and> (parserPlugins pm = [] \<longrightarrow>
            parse_line (Some pm) n rawLine s = assign_current s k (VStr v))"
proof -
  from assms(6) have t: "t \<noteq> []" by (rule parseKeyValue_type_nonempty)
  from assms(1-7,9) t show ?thesis
    by (simp add: parse_line_def assign_statement_def PM_processValue_def PM_onKeyValue_def)
qed

theorem unhandled_type_annotation_witness:
  "parseKeyValue (trim custom_line) 1 = Inr (''Key'', custom_rhs, Some ''custom'')
   \<and> parse_line None 1 custom_line init_state
       = Inr (init_state\<lparr> heap := [Frame [(''Key'', VRec [(''type'', VStr ''custom''),
                                                      (''value'', VArr [VStr ''a'', VStr ''b''])])]] \<rparr>)
   \<and> parse_line (Some new_PluginManager) 1 custom_line init_state
       = Inr (init_state\<lparr> heap := [Frame [(''Key'', VStr custom_rhs)]] \<rparr>)"
proof -
  have h1: "\<not> inMultiline init_state" by code_simp
  have h2: "trim custom_line \<noteq> []" by code_simp
  have h3: "\<not> startsWith (trim custom_line) ''#''" by code_simp
  have h4: "match_keyword kw_Begin (trim custom_line) = None" by code_simp
  have h5: "match_keyword kw_End (trim custom_line) = None" by code_simp
  have h6: "parseKeyValue (trim custom_line) 1 = Inr (''Key'', custom_rhs, Some ''custom'')"
    by code_simp
  have h7: "\<not> startsWith custom_rhs triple_quote" by code_simp
  have h8: "''Key'' \<noteq> ''__proto__''" by simp
  have h9: "map_of (typePlugins new_PluginManager) ''custom'' = None" by code_simp
  have h10: "parserPlugins new_PluginManager = []" by code_simp
  have a1: "assign_current init_state ''Key''
              (VRec [(''type'', VStr ''custom''), (''value'', processValue custom_rhs)])
            = Inr (init_state\<lparr> heap := [Frame [(''Key'', VRec [(''type'', VStr ''custom''),
                                                      (''value'', VArr [VStr ''a'', VStr ''b''])])]] \<rparr>)"
    by code_simp
  have a2: "assign_current init_state ''Key'' (VStr custom_rhs)
            = Inr (init_state\<lparr> heap := [Frame [(''Key'', VStr custom_rhs)]] \<rparr>)"
    by code_simp
  note r = unhandled_type_annotation [OF h1 h2 h3 h4 h5 h6 h7 h8 h9]
  from r have p1: "parse_line None 1 custom_line init_state
      = assign_current init_state ''Key''
          (VRec [(''type'', VStr ''custom''), (''value'', processValue custom_rhs)])"
    by (rule conjunct1)
  from r h10 have p3: "parse_line (Some new_PluginManager) 1 custom_line init_state
      = assign_current init_state ''Key'' (VStr custom_rhs)"
    by blast
  from h6 p1 [unfolded a1] p3 [unfolded a2] show ?thesis
    by (intro conjI)
qed

text \<open>
  The claim as stated fails with a plugin manager: the empty manager leaves the quoted
  string under \<open>Key\<close>, not the pair with the list of \<open>a\<close> and \<open>b\<close>. It fails as well,
  with or without a manager, on an annotated line that opens a multiline value: the
  line \<open>K@t: """abc\<close> assigns nothing and keeps only the key.
\<close>

theorem unhandled_type_counterexample:
  "parseAuthorDSL custom_line (Some new_PluginManager)
     = Inr \<lparr> d_heap = [Frame [(''Key'', VStr custom_rhs)]], d_root = 0 \<rparr>
   \<and> doc_get \<lparr> d_heap = [Frame [(''Key'', VStr custom_rhs)]], d_root = 0 \<rparr> ''Key''
       \<noteq> Some (VRec [(''type'', VStr ''custom''), (''value'', processValue custom_rhs)])
   \<and> processValue custom_rhs = VArr [VStr ''a'', VStr ''b'']
   \<and> parseKeyValue (trim typed_opener) 1 = Inr (''K'', triple_quote @ ''abc'', Some ''t'')
   \<and> parse_line None 1 typed_opener init_state
       = Inr (init_state\<lparr> inMultiline := True, multilineKey := Some ''K'',
                            multilineBuffer := [''abc''] \<rparr>)
   \<and> parse_line (Some new_PluginManager) 1 typed_opener init_state
       = Inr (init_state\<lparr> inMultiline := True, multilineKey := Some ''K'',
                            multilineBuffer := [''abc''] \<rparr>)"
  by code_simp

section \<open>Multiline values\<close>

text \<open>
  C3. The claim says the \<open>onKeyValue\<close> hooks run on a completed multiline value as they
  do on a single-line scalar. The code assigns the multiline value with \<open>assignValue\<close>
  directly: under a manager whose hook files every value under \<open>Seen\<close>, the line
  \<open>Bio: line1\<close> is filed under \<open>Seen\<close>, the multiline \<open>Bio\<close> stays under \<open>Bio\<close>.
\<close>

theorem multiline_skips_onKeyValue:
  "parseAuthorDSL ''Bio: line1'' (Some renaming_manager)
     = Inr \<lparr> d_heap = [Frame [(''Seen'', VStr ''line1'')]], d_root = 0 \<rparr>
   \<and> parseAuthorDSL multiline_input (Some renaming_manager)
     = Inr \<lparr> d_heap = [Frame [(''Bio'', VStr ''line1'')]], d_root = 0 \<rparr>"
  by code_simp

lemma multiline_body:
  assumes "inMultiline s" and "list_all (\<lambda>l. \<not> closes l) body"
  shows "parse_lines pm n body s = Inr (s\<lparr> multilineBuffer := multilineBuffer s @ body \<rparr>)"
  using assms
proof (induction body arbitrary: s n)
  case Nil
  then show ?case by simp
next
  case (Cons l body)
  from Cons.prems have step: "parse_line pm n l s = Inr (s\<lparr> multilineBuffer := multilineBuffer s @ [l] \<rparr>)"
    by (simp add: parse_line_def handleMultilineContent_def closes_def)
  from Cons.prems have "inMultiline (s\<lparr> multilineBuffer := multilineBuffer s @ [l] \<rparr>)"
    and "list_all (\<lambda>l. \<not> closes l) body"
    by simp_all
  from Cons.IH [OF this] step show ?case by simp
qed

lemma parse_lines_append:
  "parse_lines pm n (xs @ ys) s =
     (case parse_lines pm n xs s of Inl e \<Rightarrow> Inl e | Inr s' \<Rightarrow> parse_lines pm (n + length xs) ys s')"
  by (induction xs arbitrary: s n) (auto split: sum.splits)

text \<open>
  C6. Inside a multiline value, body lines that do not close it followed by a closing
  line assign to the pending key the buffered lines and the closing line's remainder,
  joined with newlines and trimmed, as a plain string; the four lines
  \<open>Bio@multiline: """\<close>, \<open>line1\<close>, \<open>line2\<close>, \<open>"""\<close> give \<open>Bio\<close> the two lines joined
  by a newline, with no type wrapper.
\<close>

theorem multiline_value_joined_trimmed:
  assumes "inMultiline s" and "multilineKey s = Some k" and "current s = Some a"
      and "list_all (\<lambda>l. \<not> closes l) body" and "closes closing"
  shows "parse_lines pluginManager n (body @ [closing]) s
           = Inr (s\<lparr> heap := (heap s)[a := assignValue (heap s ! a) k
                     (VStr (trim (join [newline]
                        (multilineBuffer s @ body @ [take (length (trim closing) - 3) (trim closing)]))))],
                    inMultiline := False, multilineKey := None, multilineBuffer := [] \<rparr>)
       \<and> parseAuthorDSL bio_input None
           = Inr \<lparr> d_heap = [Frame [(''Bio'', VStr (''line1'' @ [newline] @ ''line2''))]], d_root = 0 \<rparr>"
proof -
  from multiline_body [OF assms(1) assms(4)]
  have body: "parse_lines pluginManager n body s = Inr (s\<lparr> multilineBuffer := multilineBuffer s @ body \<rparr>)" .
  from assms(3) have cur: "current (s\<lparr> multilineBuffer :=
      multilineBuffer s @ body @ [take (length (trim closing) - 3) (trim closing)] \<rparr>) = Some a"
    by (simp add: current_def split: if_splits)
  have example: "parseAuthorDSL bio_input None
           = Inr \<lparr> d_heap = [Frame [(''Bio'', VStr (''line1'' @ [newline] @ ''line2''))]], d_root = 0 \<rparr>"
    by code_simp
  show ?thesis
    using assms(1,2,5) cur example
    by (simp add: parse_lines_append body parse_line_def handleMultilineContent_def closes_def
          assign_current_def)
qed


theorem multiline_value_joined_trimmed_witness:
  "parse_lines None 1 [''Bio@multiline: '' @ triple_quote] init_state = Inr bio_open
   \<and> parse_lines None 2 ([''line1'', ''line2''] @ [triple_quote]) bio_open
       = Inr (init_state\<lparr> heap := [Frame [(''Bio'', VStr (''line1'' @ [newline] @ ''line2''))]] \<rparr>)"
proof -
  have h0: "parse_lines None 1 [''Bio@multiline: '' @ triple_quote] init_state = Inr bio_open"
    by code_simp
  have h1: "inMultiline bio_open" by code_simp
  have h2: "multilineKey bio_open = Some ''Bio''" by code_simp
  have h3: "current bio_open = Some 0" by code_simp
  have h4: "list_all (\<lambda>l. \<not> closes l) [''line1'', ''line2'']" by code_simp
  have h5: "closes triple_quote" by code_simp
  have v: "bio_open\<lparr> heap := (heap bio_open)[0 := assignValue (heap bio_open ! 0) ''Bio''
                     (VStr (trim (join [newline]
                        (multilineBuffer bio_open @ [''line1'', ''line2'']
                           @ [take (length (trim triple_quote) - 3) (trim triple_quote)]))))],
                    inMultiline := False, multilineKey := None, multilineBuffer := [] \<rparr>
           = init_state\<lparr> heap := [Frame [(''Bio'', VStr (''line1'' @ [newline] @ ''line2''))]] \<rparr>"
    by code_simp
  from multiline_value_joined_trimmed [OF h1 h2 h3 h4 h5, of None 2, unfolded v]
  have "parse_lines None 2 ([''line1'', ''line2''] @ [triple_quote]) bio_open
       = Inr (init_state\<lparr> heap := [Frame [(''Bio'', VStr (''line1'' @ [newline] @ ''line2''))]] \<rparr>)"
    by (rule conjunct1)
  with h0 show ?thesis by (intro conjI)
qed


section \<open>Registration\<close>

lemmas register_defs =
  register_def Let_def registerTypePlugin_def registerValidationPlugin_def
  registerFormatterPlugin_def registerParserPlugin_def sort_by_priority_def priority_of_def
  set_plugin_entry_def

lemma plugins_register:
  "plugins (fst (register p opts pm)) = AList.update (p_name p) (p, defaultOptions opts) (plugins pm)"
  by (simp add: register_defs split: option.splits)

lemma validationPlugins_register:
  "validationPlugins (fst (register p opts pm)) =
     (if isValidationPlugin p
      then sort_by_priority (set_plugin_entry p opts pm) (validationPlugins pm @ [p])
      else validationPlugins pm)"
  by (simp add: register_defs set_plugin_entry_def split: option.splits)

lemma parserPlugins_register:
  "parserPlugins (fst (register p opts pm)) =
     (if isParserPlugin p
      then sort_by_priority (set_plugin_entry p opts pm) (parserPlugins pm @ [p])
      else parserPlugins pm)"
  by (simp add: register_defs set_plugin_entry_def split: option.splits)

lemma formatterPlugins_register:
  "formatterPlugins (fst (register p opts pm)) =
     (if isFormatterPlugin p then formatterPlugins pm @ [p] else formatterPlugins pm)"
  by (simp add: register_defs split: option.splits)

lemma priority_or_0_defaultOptions: "priority_or_0 (defaultOptions opts) = priority_or_0 opts"
  by (simp add: priority_or_0_def defaultOptions_def split: option.splits)

lemma two_hooks_in_order:
  assumes "p_beforeParse P1 = Some f1" and "p_beforeParse P2 = Some f2"
      and "priority_or_0 o1 = priority_or_0 o2"
  shows "parserPlugins (fst (register P2 o2 (fst (register P1 o1 new_PluginManager)))) = [P1, P2]"
proof -
  let ?pm1 = "fst (register P1 o1 new_PluginManager)"
  from assms have pp: "isParserPlugin P1" "isParserPlugin P2"
    by (simp_all add: isParserPlugin_def)
  have one: "parserPlugins ?pm1 = [P1]"
    using pp by (simp add: parserPlugins_register sort_by_priority_def new_PluginManager_def)
  have entries: "plugins (set_plugin_entry P2 o2 ?pm1)
      = AList.update (p_name P2) (P2, defaultOptions o2) [(p_name P1, (P1, defaultOptions o1))]"
    by (simp add: set_plugin_entry_def plugins_register new_PluginManager_def)
  have same: "priority_of (set_plugin_entry P2 o2 ?pm1) P1 = priority_of (set_plugin_entry P2 o2 ?pm1) P2"
    using assms(3) by (simp add: priority_of_def entries priority_or_0_defaultOptions)
  have "parserPlugins (fst (register P2 o2 ?pm1)) = sort_by_priority (set_plugin_entry P2 o2 ?pm1) [P1, P2]"
    using pp one by (simp add: parserPlugins_register)
  also have "\<dots> = [P1, P2]"
    using same by (simp add: sort_by_priority_def)
  finally show ?thesis .
qed

text \<open>
  C7. Two parse hooks \<open>P1\<close> then \<open>P2\<close> registered with equal priority on a new manager
  stand in that order on the list, \<open>beforeParse\<close> hands the output of \<open>P1\<close> to \<open>P2\<close>,
  and the parse engine of \<open>parseAuthorDSL\<close> receives the output of \<open>P2\<close>.
\<close>

theorem beforeParse_chain:
  assumes "p_beforeParse P1 = Some f1" and "p_beforeParse P2 = Some f2"
      and "priority_or_0 o1 = priority_or_0 o2"
      and "f1 input = Inr t1" and "f2 t1 = Inr t2" and "trim input \<noteq> []"
  shows "PM_beforeParse (fst (register P2 o2 (fst (register P1 o1 new_PluginManager)))) input = Inr t2
       \<and> parseAuthorDSL input (Some (fst (register P2 o2 (fst (register P1 o1 new_PluginManager)))))
           = parse_engine (Some (fst (register P2 o2 (fst (register P1 o1 new_PluginManager))))) t2"
proof -
  from two_hooks_in_order [OF assms(1,2,3)] assms(1,2,4,5)
  have chain: "PM_beforeParse (fst (register P2 o2 (fst (register P1 o1 new_PluginManager)))) input = Inr t2"
    by (simp add: PM_beforeParse_def)
  with assms(6) show ?thesis
    by (simp add: parseAuthorDSL_def validateInput_def)
qed

theorem beforeParse_chain_witness:
  "PM_beforeParse two_hooks ''A: 1'' = Inr (''A: 1'' @ [newline] @ ''P1: yes'' @ [newline] @ ''P2: yes'')
   \<and> parseAuthorDSL ''A: 1'' (Some two_hooks)
       = Inr \<lparr> d_heap = [Frame [(''A'', VStr ''1''), (''P1'', VStr ''yes''), (''P2'', VStr ''yes'')]],
               d_root = 0 \<rparr>"
proof -
  have h1: "p_beforeParse hook_P1 = Some (\<lambda>input. Inr (input @ [newline] @ ''P1: yes''))"
    by (simp add: hook_P1_def)
  have h2: "p_beforeParse hook_P2 = Some (\<lambda>input. Inr (input @ [newline] @ ''P2: yes''))"
    by (simp add: hook_P2_def)
  have h3: "priority_or_0 no_options = priority_or_0 no_options" by simp
  have h4: "(\<lambda>input. Inr (input @ [newline] @ ''P1: yes'')) ''A: 1''
              = (Inr (''A: 1'' @ [newline] @ ''P1: yes'') :: string + string)"
    by simp
  have h5: "(\<lambda>input. Inr (input @ [newline] @ ''P2: yes'')) (''A: 1'' @ [newline] @ ''P1: yes'')
              = (Inr (''A: 1'' @ [newline] @ ''P1: yes'' @ [newline] @ ''P2: yes'') :: string + string)"
    by simp
  have h6: "trim ''A: 1'' \<noteq> []" by code_simp
  have eng: "parse_engine (Some two_hooks) (''A: 1'' @ [newline] @ ''P1: yes'' @ [newline] @ ''P2: yes'')
       = Inr \<lparr> d_heap = [Frame [(''A'', VStr ''1''), (''P1'', VStr ''yes''), (''P2'', VStr ''yes'')]],
               d_root = 0 \<rparr>"
    by code_simp
  from beforeParse_chain [OF h1 h2 h3 h4 h5 h6] eng
  show ?thesis by (simp add: two_hooks_def)
qed

section \<open>Unregistering a type handler\<close>

lemma map_of_fold_delete_keeps_None:
  "map_of al t = None \<Longrightarrow> map_of (fold AList.delete ts al) t = None"
  by (induction ts arbitrary: al) (simp_all add: delete_conv')

lemma map_of_fold_delete:
  "t \<in> set ts \<Longrightarrow> map_of (fold AList.delete ts al) t = None"
proof (induction ts arbitrary: al)
  case Nil
  then show ?case by simp
next
  case (Cons x ts)
  show ?case
  proof (cases "t = x")
    case True
    have "map_of (AList.delete x al) x = None" by (simp add: delete_conv')
    then show ?thesis using True by (simp add: map_of_fold_delete_keeps_None)
  next
    case False
    with Cons.prems have "t \<in> set ts" by simp
    with Cons.IH show ?thesis by simp
  qed
qed

lemma typePlugins_unregister_parts [simp]:
  "typePlugins (unregisterValidationPlugin p pm) = typePlugins pm"
  "typePlugins (unregisterFormatterPlugin p pm) = typePlugins pm"
  "typePlugins (unregisterParserPlugin p pm) = typePlugins pm"
  by (simp_all add: unregisterValidationPlugin_def unregisterFormatterPlugin_def
        unregisterParserPlugin_def)

text \<open>
  C10. After \<open>unregister\<close> of a registered type plugin the type-handler map has no
  entry for any tag the plugin declares, also where a plugin registered later was
  the handler of the tag: that plugin stays registered and loses the tag.
\<close>

theorem unregister_removes_type_tags:
  assumes "map_of (plugins pm) pluginName = Some (p, opts)"
      and "p_supportedTypes p = Some ts" and "p_processValue p = Some f"
      and "t \<in> set ts"
  shows "map_of (typePlugins (unregister pluginName pm)) t = None"
  using assms
  by (simp add: unregister_def isTypePlugin_def unregisterTypePlugin_def Let_def map_of_fold_delete)

theorem unregister_removes_type_tags_witness:
  "map_option p_name (map_of (typePlugins manager_A_B) ''x'') = Some ''B''
   \<and> map_of (typePlugins (unregister ''A'' manager_A_B)) ''x'' = None
   \<and> isRegistered (unregister ''A'' manager_A_B) ''B''
   \<and> PM_processValue (unregister ''A'' manager_A_B) ''v'' (Some ''x'') (block_context 1 [] init_state)
       = Inr (VStr ''v'')"
proof -
  have reg: "map_of (plugins manager_A_B) ''A'' = Some (type_plugin_A, defaultOptions no_options)"
    by (simp add: manager_A_B_def plugins_register new_PluginManager_def type_plugin_A_def
          type_plugin_B_def bare_plugin_def)
  have ts: "p_supportedTypes type_plugin_A = Some [''x'', ''y'']"
    by (simp add: type_plugin_A_def)
  have pv: "p_processValue type_plugin_A = Some (\<lambda>v t ctx. Inr (VStr (''A:'' @ v)))"
    by (simp add: type_plugin_A_def)
  have mem: "''x'' \<in> set [''x'', ''y'']" by simp
  have cur: "map_option p_name (map_of (typePlugins manager_A_B) ''x'') = Some ''B''"
    by code_simp
  have still: "isRegistered (unregister ''A'' manager_A_B) ''B''"
    by code_simp
  have raw: "PM_processValue (unregister ''A'' manager_A_B) ''v'' (Some ''x'') (block_context 1 [] init_state)
       = Inr (VStr ''v'')"
    by code_simp
  from unregister_removes_type_tags [OF reg ts pv mem] cur still raw
  show ?thesis by (intro conjI)
qed

section \<open>Validation\<close>

lemma validate_loop_all_succeed:
  "list_all (\<lambda>p. \<exists>w. call_validate p d = Inr w) ps \<Longrightarrow>
     validate_loop ps d acc = Inr (acc @ concat (map (\<lambda>p. projr (call_validate p d)) ps))"
proof (induction ps arbitrary: acc)
  case Nil
  then show ?case by simp
next
  case (Cons p ps)
  then obtain w where w: "call_validate p d = Inr w" by auto
  from Cons have "validate_loop ps d (acc @ w) = Inr ((acc @ w) @ concat (map (\<lambda>p. projr (call_validate p d)) ps))"
    by simp
  with w show ?case by simp
qed

lemma validate_loop_first_failure:
  "list_all (\<lambda>p. \<exists>w. call_validate p d = Inr w) pre \<Longrightarrow> call_validate p d = Inl msg \<Longrightarrow>
     validate_loop (pre @ p # post) d acc = Inl (createPluginError (p_name p) ''VALIDATE_DATA_FAILED'' msg)"
proof (induction pre arbitrary: acc)
  case Nil
  then show ?case by simp
next
  case (Cons q pre)
  then obtain w where w: "call_validate q d = Inr w" by auto
  with Cons show ?case by simp
qed

lemma validate_loop_some_failure:
  "\<not> list_all (\<lambda>p. \<exists>w. call_validate p d = Inr w) ps \<Longrightarrow>
     \<exists>p msg. p \<in> set ps \<and> call_validate p d = Inl msg
       \<and> validate_loop ps d acc = Inl (createPluginError (p_name p) ''VALIDATE_DATA_FAILED'' msg)"
proof (induction ps arbitrary: acc)
  case Nil
  then show ?case by simp
next
  case (Cons q ps)
  show ?case
  proof (cases "call_validate q d")
    case (Inl msg)
    then show ?thesis by auto
  next
    case (Inr w)
    with Cons.prems have "\<not> list_all (\<lambda>p. \<exists>w. call_validate p d = Inr w) ps" by simp
    from Cons.IH [OF this, of "acc @ w"] Inr show ?thesis by auto
  qed
qed

text \<open>
  C8. \<open>validateData\<close> returns the validators' warning lists concatenated in list order
  when every validator returns; when one throws, the call fails with the
  \<open>PluginError\<close> that carries the name of the first validator that throws and the
  code \<open>VALIDATE_DATA_FAILED\<close>, and no warning of the validators before it is returned.
\<close>

theorem validateData_all_or_nothing:
  "(list_all (\<lambda>p. \<exists>w. call_validate p d = Inr w) (validationPlugins pm) \<longrightarrow>
      validateData pm d = Inr (concat (map (\<lambda>p. projr (call_validate p d)) (validationPlugins pm))))
   \<and> (validationPlugins pm = pre @ p # post
        \<and> list_all (\<lambda>p. \<exists>w. call_validate p d = Inr w) pre \<and> call_validate p d = Inl msg \<longrightarrow>
      validateData pm d = Inl (PluginError (p_name p) ''VALIDATE_DATA_FAILED''
                                 (''Plugin '' @ p_name p @ '' error: '' @
                                  (if msg = [] then ''Unknown error'' else msg))))
   \<and> (\<not> list_all (\<lambda>p. \<exists>w. call_validate p d = Inr w) (validationPlugins pm) \<longrightarrow>
      (\<exists>q m. q \<in> set (validationPlugins pm) \<and> call_validate q d = Inl m
         \<and> validateData pm d = Inl (createPluginError (p_name q) ''VALIDATE_DATA_FAILED'' m)))"
proof (intro conjI impI)
  assume "\<not> list_all (\<lambda>p. \<exists>w. call_validate p d = Inr w) (validationPlugins pm)"
  from validate_loop_some_failure [OF this, of "[]"]
  show "\<exists>q m. q \<in> set (validationPlugins pm) \<and> call_validate q d = Inl m
         \<and> validateData pm d = Inl (createPluginError (p_name q) ''VALIDATE_DATA_FAILED'' m)"
    by (simp add: validateData_def)
qed (auto simp: validateData_def validate_loop_all_succeed validate_loop_first_failure
        createPluginError_def)

theorem validateData_all_or_nothing_witness:
  "map p_name (validationPlugins validators_bad) = [''V3'', ''V1'', ''V2'']
   \<and> validateData validators_ok empty_document = Inr [''w3'', ''w1'']
   \<and> validateData validators_bad empty_document
       = Inl (PluginError ''V2'' ''VALIDATE_DATA_FAILED'' ''Plugin V2 error: bad'')"
proof -
  have order: "map p_name (validationPlugins validators_bad) = [''V3'', ''V1'', ''V2'']"
    by code_simp
  have ok: "validationPlugins validators_ok = [validator_3, validator_1]"
    by (simp add: validators_ok_def validationPlugins_register isValidationPlugin_def
          plugins_register validator_1_def validator_3_def bare_plugin_def new_PluginManager_def
          sort_by_priority_def priority_of_def set_plugin_entry_def defaultOptions_def
          priority_or_0_def no_options_def priority_5_def)
  have bad: "validationPlugins validators_bad = [validator_3, validator_1] @ validator_2 # []"
    by (simp add: validators_bad_def validationPlugins_register ok isValidationPlugin_def
          plugins_register validators_ok_def
          validator_1_def validator_2_def validator_3_def bare_plugin_def new_PluginManager_def
          sort_by_priority_def priority_of_def set_plugin_entry_def defaultOptions_def
          priority_or_0_def no_options_def priority_5_def)
  have c3: "call_validate validator_3 empty_document = Inr [''w3'']"
    by (simp add: call_validate_def validator_3_def)
  have c1: "call_validate validator_1 empty_document = Inr [''w1'']"
    by (simp add: call_validate_def validator_1_def)
  have c2: "call_validate validator_2 empty_document = Inl ''bad''"
    by (simp add: call_validate_def validator_2_def)
  note r1 = validateData_all_or_nothing
    [of empty_document validators_ok "[]" validator_1 "[]" "[]", THEN conjunct1]
  from r1 ok c1 c3 have p1: "validateData validators_ok empty_document = Inr [''w3'', ''w1'']"
    by simp
  note r2 = validateData_all_or_nothing
    [of empty_document validators_bad "[validator_3, validator_1]" validator_2 "[]" "''bad''",
     THEN conjunct2]
  from r2 bad c1 c2 c3
  have p2: "validateData validators_bad empty_document
       = Inl (PluginError ''V2'' ''VALIDATE_DATA_FAILED'' ''Plugin V2 error: bad'')"
    by (simp add: validator_2_def bare_plugin_def)
  from order p1 p2 show ?thesis by (intro conjI)
qed

section \<open>Formatting\<close>

lemma find_formatter_append:
  "find_formatter fmt xs = Inr None \<Longrightarrow> find_formatter fmt (xs @ ys) = find_formatter fmt ys"
  by (induction xs) (auto split: option.splits if_splits)

text \<open>
  C5, as the code has it. The formatters are an ordered list, not a map keyed by tag:
  registering a second formatter for a tag appends it and replaces nothing, and
  \<open>formatData\<close> invokes the first plugin on the list whose formats hold the tag. So
  when no formatter on the list handles a tag and \<open>P1\<close> then \<open>P2\<close> are registered,
  \<open>P1\<close> handling the tag, a request for the tag invokes \<open>P1\<close>, whatever \<open>P2\<close> declares.
\<close>

theorem first_registered_formatter_wins:
  assumes "find_formatter fmt (formatterPlugins pm) = Inr None"
      and "p_supportedFormats P1 = Some fs1" and "fmt \<in> set fs1" and "p_format P1 = Some f1"
  shows "formatData (fst (register P2 o2 (fst (register P1 o1 pm)))) d fmt options
           = (case f1 d options of
                Inl msg \<Rightarrow> Inl (createPluginError (p_name P1) ''FORMAT_FAILED'' msg)
              | Inr out \<Rightarrow> Inr out)"
proof -
  from assms have fp: "isFormatterPlugin P1" by (simp add: isFormatterPlugin_def)
  have "formatterPlugins (fst (register P2 o2 (fst (register P1 o1 pm))))
          = formatterPlugins pm @ P1 # (if isFormatterPlugin P2 then [P2] else [])"
    using fp by (simp add: formatterPlugins_register)
  moreover have "find_formatter fmt (formatterPlugins pm @ P1 # (if isFormatterPlugin P2 then [P2] else []))
          = Inr (Some P1)"
    using assms by (simp add: find_formatter_append)
  ultimately show ?thesis
    using assms by (simp add: formatData_def)
qed

theorem first_registered_formatter_wins_witness:
  "find_formatter ''json'' (formatterPlugins new_PluginManager) = Inr None
   \<and> formatData two_formatters empty_document ''json'' VUndefined = Inr ''first''
   \<and> formatData two_formatters empty_document ''yaml'' VUndefined = Inr ''second''"
proof -
  have h1: "find_formatter ''json'' (formatterPlugins new_PluginManager) = Inr None"
    by (simp add: new_PluginManager_def)
  have h2: "p_supportedFormats formatter_1 = Some [''json'']" by (simp add: formatter_1_def)
  have h3: "''json'' \<in> set [''json'']" by simp
  have h4: "p_format formatter_1 = Some (\<lambda>d options. Inr ''first'')" by (simp add: formatter_1_def)
  have y: "formatData two_formatters empty_document ''yaml'' VUndefined = Inr ''second''"
    by code_simp
  from first_registered_formatter_wins [OF h1 h2 h3 h4, of formatter_2 no_options no_options
         empty_document VUndefined]
  have "formatData two_formatters empty_document ''json'' VUndefined = Inr ''first''"
    by (simp add: two_formatters_def)
  with h1 y show ?thesis by (intro conjI)
qed

text \<open>
  The claim as stated fails: with \<open>F1\<close> then \<open>F2\<close> registered for \<open>json\<close>, a request for
  \<open>json\<close> gets the output of \<open>F1\<close>, the earlier one.
\<close>

theorem later_formatter_counterexample:
  "formatData two_formatters empty_document ''json'' VUndefined = Inr ''first''
   \<and> formatData two_formatters empty_document ''json'' VUndefined \<noteq> Inr ''second''
   \<and> map p_name (formatterPlugins two_formatters) = [''F1'', ''F2'']"
  by code_simp

end
